theory Spec2Isabelle
  imports Complex_Main
begin

section \<open>Geometry primitives\<close>

text \<open>
  The game is written against SFML. Its \<^verbatim>\<open>float\<close> values are idealised as real numbers:
  every arithmetic operation is the exact one, and the idiom
  \<^verbatim>\<open>pow(pow(dx, 2) + pow(dy, 2), .5)\<close> is the Euclidean norm.
  \<^verbatim>\<open>sf::Vector2f\<close> and \<^verbatim>\<open>sf::FloatRect\<close> are plain structs. Member names lose their
  trailing underscore (\<^verbatim>\<open>vel_\<close> is \<^verbatim>\<open>vel\<close>), and \<^verbatim>\<open>delete_\<close> is \<^verbatim>\<open>obj_delete\<close>.
\<close>

record vector2f =
  vec_x :: real
  vec_y :: real

record floatRect =
  rect_left :: real
  rect_top :: real
  rect_width :: real
  rect_height :: real

definition Vector2f :: "real \<Rightarrow> real \<Rightarrow> vector2f" where
  "Vector2f a b = \<lparr>vec_x = a, vec_y = b\<rparr>"

definition FloatRect :: "real \<Rightarrow> real \<Rightarrow> real \<Rightarrow> real \<Rightarrow> floatRect" where
  "FloatRect l t w h = \<lparr>rect_left = l, rect_top = t, rect_width = w, rect_height = h\<rparr>"

text \<open>
  \<^verbatim>\<open>sf::Rect::contains\<close> and \<^verbatim>\<open>sf::Rect::intersects\<close> as SFML 2 documents them: the
  rectangle is normalised first (a negative width or height is allowed), the right and
  bottom edges are excluded, and two rectangles intersect when the overlap has a
  positive area.
\<close>

definition contains :: "floatRect \<Rightarrow> real \<Rightarrow> real \<Rightarrow> bool" where
  "contains r px py =
     (let minX = min (rect_left r) (rect_left r + rect_width r);
          maxX = max (rect_left r) (rect_left r + rect_width r);
          minY = min (rect_top r) (rect_top r + rect_height r);
          maxY = max (rect_top r) (rect_top r + rect_height r)
      in px \<ge> minX \<and> px < maxX \<and> py \<ge> minY \<and> py < maxY)"

definition intersects :: "floatRect \<Rightarrow> floatRect \<Rightarrow> bool" where
  "intersects r1 r2 =
     (let r1MinX = min (rect_left r1) (rect_left r1 + rect_width r1);
          r1MaxX = max (rect_left r1) (rect_left r1 + rect_width r1);
          r1MinY = min (rect_top r1) (rect_top r1 + rect_height r1);
          r1MaxY = max (rect_top r1) (rect_top r1 + rect_height r1);
          r2MinX = min (rect_left r2) (rect_left r2 + rect_width r2);
          r2MaxX = max (rect_left r2) (rect_left r2 + rect_width r2);
          r2MinY = min (rect_top r2) (rect_top r2 + rect_height r2);
          r2MaxY = max (rect_top r2) (rect_top r2 + rect_height r2);
          interLeft = max r1MinX r2MinX;
          interTop = max r1MinY r2MinY;
          interRight = min r1MaxX r2MaxX;
          interBottom = min r1MaxY r2MaxY
      in interLeft < interRight \<and> interTop < interBottom)"

definition euclid :: "real \<Rightarrow> real \<Rightarrow> real" where
  "euclid dx dy = sqrt (dx\<^sup>2 + dy\<^sup>2)"

section \<open>Barrier\<close>

text \<open>
  Barrier.cpp. The three walls are unrotated \<^verbatim>\<open>sf::RectangleShape\<close>s without outline, so
  the global bounds of each are its position and size; the record keeps these bounds.
  \<^verbatim>\<open>BANNER_HEIGHT\<close> comes from Constants.h and is a parameter of the constructor here.
\<close>

record barrier =
  bar_left :: floatRect
  bar_top :: floatRect
  bar_right :: floatRect

definition Barrier :: "real \<Rightarrow> real \<Rightarrow> real \<Rightarrow> real \<Rightarrow> real \<Rightarrow> barrier" where
  "Barrier BANNER_HEIGHT windowWidth windowHeight wd buffer =
     \<lparr>bar_left = FloatRect buffer (buffer + BANNER_HEIGHT) wd (windowHeight - buffer - BANNER_HEIGHT),
      bar_top = FloatRect buffer (buffer + BANNER_HEIGHT) (windowWidth - 2 * buffer - wd) wd,
      bar_right = FloatRect (windowWidth - buffer - wd) (buffer + BANNER_HEIGHT) wd
                    (windowHeight - buffer - BANNER_HEIGHT)\<rparr>"

text \<open>
  Every \<^verbatim>\<open>collision(FloatRect& boundingBox)\<close> returns its character together with the
  bounding box as the call leaves it, since the box is passed by reference.
\<close>

definition Barrier_collision :: "barrier \<Rightarrow> floatRect \<Rightarrow> char \<times> floatRect" where
  "Barrier_collision b boundingBox =
     (if intersects (bar_left b) boundingBox \<or> intersects (bar_right b) boundingBox
      then (CHR ''h'', boundingBox)
      else if intersects (bar_top b) boundingBox
      then (CHR ''v'', boundingBox)
      else (CHR ''n'', boundingBox))"

section \<open>Brick\<close>

text \<open>
  Brick.cpp. \<^verbatim>\<open>rectangle_\<close> is an unrotated rectangle shape; the record keeps its global
  bounds (position and size) and the brick's special tag.
\<close>

record brick =
  brick_rectangle :: floatRect
  special :: char

definition Brick :: "real \<Rightarrow> real \<Rightarrow> real \<Rightarrow> real \<Rightarrow> char \<Rightarrow> brick" where
  "Brick xPos yPos wd ht sp = \<lparr>brick_rectangle = FloatRect xPos yPos wd ht, special = sp\<rparr>"

definition Brick_collision :: "brick \<Rightarrow> floatRect \<Rightarrow> char \<times> floatRect" where
  "Brick_collision b boundingBox =
     (let bounds = brick_rectangle b;
          center = Vector2f (rect_left boundingBox + rect_width boundingBox / 2)
                            (rect_top boundingBox + rect_height boundingBox / 2);
          radius = rect_width boundingBox / 2
      in if intersects bounds boundingBox then
           if contains bounds (vec_x center) (rect_top boundingBox)
              \<or> contains bounds (vec_x center) (rect_top boundingBox + rect_height boundingBox)
           then (CHR ''v'', boundingBox)
           else if contains bounds (rect_left boundingBox) (vec_y center)
              \<or> contains bounds (rect_left boundingBox + rect_width boundingBox) (vec_y center)
           then (CHR ''h'', boundingBox)
           else if euclid (vec_x center - rect_left bounds) (vec_y center - rect_top bounds) < radius
           then (CHR ''c'', boundingBox\<lparr>rect_left := rect_left bounds, rect_top := rect_top bounds\<rparr>)
           else if euclid (vec_x center - (rect_left bounds + rect_width bounds))
                          (vec_y center - rect_top bounds) < radius
           then (CHR ''c'', boundingBox\<lparr>rect_left := rect_left bounds + rect_width bounds,
                                          rect_top := rect_top bounds\<rparr>)
           else if euclid (vec_x center - (rect_left bounds + rect_width bounds))
                          (vec_y center - (rect_top bounds + rect_height bounds)) < radius
           then (CHR ''c'', boundingBox\<lparr>rect_left := rect_left bounds + rect_width bounds,
                                          rect_top := rect_top bounds + rect_height bounds\<rparr>)
           else if euclid (vec_x center - rect_left bounds)
                          (vec_y center - (rect_top bounds + rect_height bounds)) < radius
           then (CHR ''c'', boundingBox\<lparr>rect_left := rect_left bounds,
                                          rect_top := rect_top bounds + rect_height bounds\<rparr>)
           else (CHR ''n'', boundingBox)
         else (CHR ''n'', boundingBox))"

section \<open>Shapes and transforms\<close>

text \<open>
  A \<^verbatim>\<open>sf::CircleShape\<close> is kept by what the program reads from it: position, origin and
  radius, and the local bounds SFML computes once from the radius, the point count and
  the outline. Circles are never rotated or scaled here, so the global bounds are the
  local bounds translated by position minus origin.
\<close>

record circleShape =
  circ_position :: vector2f
  circ_origin :: vector2f
  circ_radius :: real
  circ_localBounds :: floatRect

definition getGlobalBounds :: "circleShape \<Rightarrow> floatRect" where
  "getGlobalBounds c =
     FloatRect (rect_left (circ_localBounds c) - vec_x (circ_origin c) + vec_x (circ_position c))
               (rect_top (circ_localBounds c) - vec_y (circ_origin c) + vec_y (circ_position c))
               (rect_width (circ_localBounds c))
               (rect_height (circ_localBounds c))"

definition setPosition :: "circleShape \<Rightarrow> real \<Rightarrow> real \<Rightarrow> circleShape" where
  "setPosition c px py = c\<lparr>circ_position := Vector2f px py\<rparr>"

definition shape_move :: "circleShape \<Rightarrow> real \<Rightarrow> real \<Rightarrow> circleShape" where
  "shape_move c offsetX offsetY =
     setPosition c (vec_x (circ_position c) + offsetX) (vec_y (circ_position c) + offsetY)"

text \<open>
  \<^verbatim>\<open>sf::Transform\<close>: an affine map of the plane, kept by the first two rows of SFML's
  matrix (the last row is 0 0 1 for every transform built here). \<^verbatim>\<open>rotate\<close> takes degrees
  and multiplies a rotation matrix from the right; SFML's single-precision literal for
  pi is the number pi here.
\<close>

record transform =
  a00 :: real
  a01 :: real
  a02 :: real
  a10 :: real
  a11 :: real
  a12 :: real

definition Identity :: transform where
  "Identity = \<lparr>a00 = 1, a01 = 0, a02 = 0, a10 = 0, a11 = 1, a12 = 0\<rparr>"

definition combine :: "transform \<Rightarrow> transform \<Rightarrow> transform" where
  "combine s t =
     \<lparr>a00 = a00 s * a00 t + a01 s * a10 t,
      a01 = a00 s * a01 t + a01 s * a11 t,
      a02 = a00 s * a02 t + a01 s * a12 t + a02 s,
      a10 = a10 s * a00 t + a11 s * a10 t,
      a11 = a10 s * a01 t + a11 s * a11 t,
      a12 = a10 s * a02 t + a11 s * a12 t + a12 s\<rparr>"

definition rotate_deg :: "transform \<Rightarrow> real \<Rightarrow> transform" where
  "rotate_deg t angle =
     (let rad = angle * pi / 180
      in combine t \<lparr>a00 = cos rad, a01 = - sin rad, a02 = 0,
                    a10 = sin rad, a11 = cos rad, a12 = 0\<rparr>)"

definition transformPoint :: "transform \<Rightarrow> vector2f \<Rightarrow> vector2f" where
  "transformPoint t p =
     Vector2f (a00 t * vec_x p + a01 t * vec_y p + a02 t)
              (a10 t * vec_x p + a11 t * vec_y p + a12 t)"

section \<open>Paddle\<close>

text \<open>
  Paddle.cpp, as far as a ball's frame reads it. The rotated rectangle is kept by what
  SFML reports of it (global bounds, position, size, rotation in degrees); the two end
  caps are circle shapes.
\<close>

record paddle =
  pad_rectBounds :: floatRect
  pad_rectPosition :: vector2f
  pad_rectSize :: vector2f
  pad_rectRotation :: real
  leftCircle :: circleShape
  rightCircle :: circleShape
  pad_vel :: real
  pad_accel :: real

text \<open>
  The constructor: a level paddle at rest. The local bounds of the end caps are SFML's to
  compute and are an argument here.
\<close>

definition Paddle :: "real \<Rightarrow> real \<Rightarrow> real \<Rightarrow> real \<Rightarrow> floatRect \<Rightarrow> paddle" where
  "Paddle xPos yPos wd ht lb =
     \<lparr>pad_rectBounds = FloatRect (xPos - wd / 2) yPos wd ht,
      pad_rectPosition = Vector2f xPos yPos,
      pad_rectSize = Vector2f wd ht,
      pad_rectRotation = 0,
      leftCircle = \<lparr>circ_position = Vector2f (xPos - wd / 2) (yPos + ht / 2),
                    circ_origin = Vector2f (ht / 2) (ht / 2),
                    circ_radius = ht / 2, circ_localBounds = lb\<rparr>,
      rightCircle = \<lparr>circ_position = Vector2f (xPos + wd / 2) (yPos + ht / 2),
                     circ_origin = Vector2f (ht / 2) (ht / 2),
                     circ_radius = ht / 2, circ_localBounds = lb\<rparr>,
      pad_vel = 0,
      pad_accel = 0\<rparr>"

definition Paddle_collision :: "paddle \<Rightarrow> floatRect \<Rightarrow> char \<times> floatRect" where
  "Paddle_collision p boundingBox =
     (let rectBounds = pad_rectBounds p;
          lc = circ_position (leftCircle p);
          rc = circ_position (rightCircle p);
          hitRectangle =
            (if intersects rectBounds boundingBox
                \<and> rect_left boundingBox + rect_width boundingBox / 2 > vec_x lc
                \<and> rect_left boundingBox + rect_width boundingBox / 2 < vec_x rc
             then
               (let ax = rect_left boundingBox + rect_width boundingBox / 2 - vec_x lc;
                    ay = vec_y lc - (rect_top boundingBox + rect_width boundingBox / 2);
                    bx = vec_x rc - vec_x lc;
                    by = vec_y lc - vec_y rc;
                    projFactor = (ax * bx + ay * by) / (bx * bx + by * by);
                    dist = euclid (ax - bx * projFactor) (ay - by * projFactor)
                in dist < rect_width boundingBox / 2 + vec_y (pad_rectSize p) / 2)
             else False)
      in if hitRectangle
         then (CHR ''v'', boundingBox\<lparr>rect_left := pad_rectRotation p,
                                        rect_width := pad_vel p,
                                        rect_height := 0\<rparr>)
         else
           (let leftCircleBounds = getGlobalBounds (leftCircle p);
                rightCircleBounds = getGlobalBounds (rightCircle p);
                temp = intersects leftCircleBounds boundingBox;
                thisCenter = (if temp then lc else rc);
                otherCenter = Vector2f (rect_left boundingBox + rect_width boundingBox / 2)
                                       (rect_top boundingBox + rect_height boundingBox / 2)
            in if (temp \<or> intersects rightCircleBounds boundingBox)
                  \<and> euclid (vec_x thisCenter - vec_x otherCenter) (vec_y thisCenter - vec_y otherCenter)
                      < rect_width boundingBox / 2 + circ_radius (rightCircle p)
               then (CHR ''s'', \<lparr>rect_left = vec_x thisCenter, rect_top = vec_y thisCenter,
                                 rect_width = pad_vel p, rect_height = 0\<rparr>)
               else (CHR ''n'', boundingBox)))"

section \<open>Ball\<close>

text \<open>
  Ball.h and Ball.cpp. \<^verbatim>\<open>attachedPos_\<close> is either null or the pointer the attached
  constructor takes from the paddle (\<^verbatim>\<open>getPos()\<close>, the address of the paddle rectangle's
  position); reading through it reads the paddle's current position.
\<close>

datatype vecptr = PaddlePos

record ball =
  circle :: circleShape
  vel :: vector2f
  attachedPos :: "vecptr option"
  collisionState :: bool

definition isAttached :: "ball \<Rightarrow> bool" where
  "isAttached b = (attachedPos b \<noteq> None)"

definition setVelocity :: "ball \<Rightarrow> vector2f \<Rightarrow> ball" where
  "setVelocity b velocity = b\<lparr>vel := velocity\<rparr>"

text \<open>
  The two constructors. The local bounds of the new circle are SFML's to compute and are
  an argument here; the attached constructor leaves the position at SFML's default, the
  origin of the plane.
\<close>

definition FreeBall :: "real \<Rightarrow> real \<Rightarrow> real \<Rightarrow> real \<Rightarrow> real \<Rightarrow> floatRect \<Rightarrow> ball" where
  "FreeBall xPos yPos xVel yVel r lb =
     \<lparr>circle = \<lparr>circ_position = Vector2f xPos yPos, circ_origin = Vector2f r r,
                 circ_radius = r, circ_localBounds = lb\<rparr>,
      vel = Vector2f xVel yVel,
      attachedPos = None,
      collisionState = False\<rparr>"

definition AttachedBall :: "real \<Rightarrow> floatRect \<Rightarrow> ball" where
  "AttachedBall r lb =
     \<lparr>circle = \<lparr>circ_position = Vector2f 0 0, circ_origin = Vector2f r r,
                 circ_radius = r, circ_localBounds = lb\<rparr>,
      vel = Vector2f 0 0,
      attachedPos = Some PaddlePos,
      collisionState = False\<rparr>"

definition Ball_collision :: "ball \<Rightarrow> floatRect \<Rightarrow> char \<times> floatRect" where
  "Ball_collision b boundingBox =
     (if isAttached b then (CHR ''n'', boundingBox)
      else
        (let thisCenter = circ_position (circle b);
             otherCenter = Vector2f (rect_left boundingBox + rect_width boundingBox / 2)
                                    (rect_top boundingBox + rect_height boundingBox / 2);
             distance = euclid (vec_x thisCenter - vec_x otherCenter)
                               (vec_y thisCenter - vec_y otherCenter)
         in if distance < rect_width boundingBox / 2 + circ_radius (circle b)
               \<and> distance > circ_radius (circle b) / 4
            then (CHR ''y'', \<lparr>rect_left = vec_x thisCenter, rect_top = vec_y thisCenter,
                              rect_width = vec_x (vel b), rect_height = vec_y (vel b)\<rparr>)
            else (CHR ''n'', boundingBox)))"

text \<open>
  \<^verbatim>\<open>getContactAngle\<close>. The literals \<^verbatim>\<open>1.570796327f\<close> and \<^verbatim>\<open>57.295779513f\<close> are the
  single-precision values of pi / 2 and 180 / pi; in the real-number reading they are
  these two numbers.
\<close>

definition getContactAngle :: "vector2f \<Rightarrow> floatRect \<Rightarrow> real" where
  "getContactAngle object1 object2 =
     (let denominator = vec_y object1 - rect_top object2;
          contactAngle = (if denominator = 0 then pi / 2
                          else arctan ((vec_x object1 - rect_left object2) / denominator))
      in contactAngle * (180 / pi))"

definition handleSimpleCollision :: "char \<Rightarrow> ball \<Rightarrow> bool \<times> ball" where
  "handleSimpleCollision c b =
     (if c = CHR ''v'' then (True, b\<lparr>vel := (vel b)\<lparr>vec_y := vec_y (vel b) * (- 1)\<rparr>\<rparr>)
      else if c = CHR ''h'' then (True, b\<lparr>vel := (vel b)\<lparr>vec_x := vec_x (vel b) * (- 1)\<rparr>\<rparr>)
      else (False, b))"

section \<open>The game and its objects\<close>

text \<open>
  GraphicsRunner.h. \<^verbatim>\<open>objects_\<close> is a vector of pointers to \<^verbatim>\<open>Object\<close>; every object has
  the flag \<^verbatim>\<open>delete_\<close>, and \<^verbatim>\<open>collision\<close> is virtual. The ball that runs a method is
  named by its index in \<^verbatim>\<open>objects_\<close>, so that a write to it and a write to
  \<^verbatim>\<open>objects[i]\<close> meet when they are the same object. Reading a vector out of range and
  calling through a failed \<^verbatim>\<open>dynamic_cast\<close> are undefined in C++; here they are faults,
  and so is an index for the running ball that holds no ball. The \<^verbatim>\<open>int\<close> fields are
  read as integers without a bound.
\<close>

datatype shape = PaddleObj paddle | BarrierObj barrier | BrickObj brick | BallObj ball

record object =
  obj_delete :: bool
  dyn :: shape

record graphicsRunner =
  objects :: "object list"
  indexOfFirstSafetyBrick :: int
  numSafetyBricks :: int
  numBricks :: int
  windowSize :: "nat \<times> nat"

definition newObject :: "shape \<Rightarrow> object" where
  "newObject s = \<lparr>obj_delete = False, dyn = s\<rparr>"

datatype fault = OutOfRange | BadCast

definition nth_object :: "object list \<Rightarrow> int \<Rightarrow> fault + object" where
  "nth_object objs i = (if 0 \<le> i \<and> i < int (length objs) then Inr (objs ! nat i) else Inl OutOfRange)"

definition getPaddle :: "graphicsRunner \<Rightarrow> fault + object" where
  "getPaddle g = nth_object (objects g) 0"

definition getBarrier :: "graphicsRunner \<Rightarrow> fault + object" where
  "getBarrier g = nth_object (objects g) 1"

definition collision :: "shape \<Rightarrow> floatRect \<Rightarrow> char \<times> floatRect" where
  "collision s boundingBox =
     (case s of
        PaddleObj p \<Rightarrow> Paddle_collision p boundingBox
      | BarrierObj w \<Rightarrow> Barrier_collision w boundingBox
      | BrickObj k \<Rightarrow> Brick_collision k boundingBox
      | BallObj b \<Rightarrow> Ball_collision b boundingBox)"

definition thisBall :: "graphicsRunner \<Rightarrow> nat \<Rightarrow> fault + ball" where
  "thisBall g self =
     (case nth_object (objects g) (int self) of
        Inl e \<Rightarrow> Inl e
      | Inr ob \<Rightarrow> (case dyn ob of BallObj b \<Rightarrow> Inr b | _ \<Rightarrow> Inl BadCast))"

definition putBall :: "graphicsRunner \<Rightarrow> nat \<Rightarrow> ball \<Rightarrow> graphicsRunner" where
  "putBall g i b = g\<lparr>objects := (objects g)[i := (objects g ! i)\<lparr>dyn := BallObj b\<rparr>]\<rparr>"

definition markDeleted :: "graphicsRunner \<Rightarrow> nat \<Rightarrow> graphicsRunner" where
  "markDeleted g i = g\<lparr>objects := (objects g)[i := (objects g ! i)\<lparr>obj_delete := True\<rparr>]\<rparr>"

definition deref :: "graphicsRunner \<Rightarrow> vecptr \<Rightarrow> fault + vector2f" where
  "deref g p =
     (case p of PaddlePos \<Rightarrow>
        (case getPaddle g of
           Inl e \<Rightarrow> Inl e
         | Inr ob \<Rightarrow> (case dyn ob of PaddleObj pad \<Rightarrow> Inr (pad_rectPosition pad) | _ \<Rightarrow> Inl BadCast)))"

section \<open>Collision handling of a ball\<close>

text \<open>
  Ball.cpp. Each handler takes the game, the index of the ball that runs it and the
  ball's saved bounds; it returns whether a collision was handled and the game as the
  call leaves it. The two loops are recursive functions on the loop index. The loop over
  the balls compares its \<^verbatim>\<open>int\<close> index with the unsigned size of the vector, so a
  negative index ends it.
\<close>

definition handleBarrierCollisions :: "graphicsRunner \<Rightarrow> nat \<Rightarrow> floatRect \<Rightarrow> fault + (bool \<times> graphicsRunner)" where
  "handleBarrierCollisions g self bounds =
     (case getBarrier g of
        Inl e \<Rightarrow> Inl e
      | Inr wall \<Rightarrow>
          (case thisBall g self of
             Inl e \<Rightarrow> Inl e
           | Inr b \<Rightarrow>
               (case collision (dyn wall) bounds of
                  (c, boundsCopy) \<Rightarrow>
                    (case handleSimpleCollision c b of
                       (handled, b1) \<Rightarrow> Inr (handled, putBall g self b1)))))"

definition handlePaddleCollisions :: "graphicsRunner \<Rightarrow> nat \<Rightarrow> floatRect \<Rightarrow> fault + (bool \<times> graphicsRunner)" where
  "handlePaddleCollisions g self bounds =
     (case getPaddle g of
        Inl e \<Rightarrow> Inl e
      | Inr pad \<Rightarrow>
          (case thisBall g self of
             Inl e \<Rightarrow> Inl e
           | Inr b \<Rightarrow>
               (case collision (dyn pad) bounds of
                  (c, boundsCopy) \<Rightarrow>
                    if c = CHR ''v'' then
                      (let contactAngle = - rect_left boundsCopy;
                           otherVel = Vector2f (rect_width boundsCopy) (rect_height boundsCopy);
                           rotation = rotate_deg Identity contactAngle;
                           v1 = transformPoint rotation (vel b);
                           otherVel1 = transformPoint rotation otherVel;
                           v2 = v1\<lparr>vec_y := vec_y v1 * (- 1)\<rparr>;
                           v3 = v2\<lparr>vec_y := vec_y v2 + vec_y otherVel1 * 1.1\<rparr>;
                           rotation2 = rotate_deg rotation (- 2 * contactAngle);
                           v4 = transformPoint rotation2 v3
                       in Inr (True, putBall g self (b\<lparr>vel := v4\<rparr>)))
                    else if c = CHR ''s'' then
                      (let contactAngle = getContactAngle (circ_position (circle b)) boundsCopy;
                           otherVel = Vector2f (rect_width boundsCopy) (rect_height boundsCopy);
                           rotation = rotate_deg Identity contactAngle;
                           v1 = transformPoint rotation (vel b);
                           otherVel1 = transformPoint rotation otherVel;
                           v2 = v1\<lparr>vec_y := vec_y v1 * (- 1)\<rparr>;
                           v3 = v2\<lparr>vec_y := vec_y v2 + vec_y otherVel1 * 1.1\<rparr>;
                           rotation2 = rotate_deg rotation (- 2 * contactAngle);
                           v4 = transformPoint rotation2 v3
                       in Inr (True, putBall g self (b\<lparr>vel := v4\<rparr>)))
                    else Inr (False, g))))"

function handleBrickCollisions_loop ::
  "graphicsRunner \<Rightarrow> nat \<Rightarrow> floatRect \<Rightarrow> int \<Rightarrow> fault + (bool \<times> graphicsRunner)" where
  "handleBrickCollisions_loop g self bounds i =
     (if i < indexOfFirstSafetyBrick g + numSafetyBricks g + numBricks g then
        (case nth_object (objects g) i of
           Inl e \<Rightarrow> Inl e
         | Inr ob \<Rightarrow>
             (case collision (dyn ob) bounds of
                (c, boundsCopy) \<Rightarrow>
                  (let g1 = (if c \<noteq> CHR ''n'' then markDeleted g (nat i) else g)
                   in case thisBall g1 self of
                        Inl e \<Rightarrow> Inl e
                      | Inr b \<Rightarrow>
                          (case handleSimpleCollision c b of
                             (handled, b1) \<Rightarrow>
                               if handled then Inr (True, putBall g1 self b1)
                               else if c = CHR ''c'' then
                                 (let contactAngle = getContactAngle (circ_position (circle b)) boundsCopy;
                                      rotation = rotate_deg Identity contactAngle;
                                      v1 = transformPoint rotation (vel b);
                                      v2 = v1\<lparr>vec_y := vec_y v1 * (- 1)\<rparr>;
                                      rotation2 = rotate_deg rotation (- 2 * contactAngle);
                                      v3 = transformPoint rotation2 v2
                                  in Inr (True, putBall g1 self (b\<lparr>vel := v3\<rparr>)))
                               else handleBrickCollisions_loop g1 self bounds (i + 1)))))
      else Inr (False, g))"
  by pat_completeness auto
termination
  by (relation "measure (\<lambda>(g, self, bounds, i). nat (indexOfFirstSafetyBrick g + numSafetyBricks g + numBricks g - i))")
     (auto simp: markDeleted_def)

declare handleBrickCollisions_loop.simps [simp del]

text \<open>
  The response to a ball contact (the body of \<^verbatim>\<open>if (c == 'y')\<close> up to the second
  \<^verbatim>\<open>transformPoint\<close>): both velocities are rotated into the contact frame, their y
  components are swapped there, and both are rotated back by the same transform.
\<close>

definition swapYVelocities :: "vector2f \<Rightarrow> vector2f \<Rightarrow> vector2f \<times> vector2f" where
  "swapYVelocities v otherVel =
     (let temp = vec_y v;
          v' = v\<lparr>vec_y := vec_y otherVel\<rparr>;
          otherVel' = otherVel\<lparr>vec_y := temp\<rparr>
      in (v', otherVel'))"

definition ballResolution :: "real \<Rightarrow> vector2f \<Rightarrow> vector2f \<Rightarrow> vector2f \<times> vector2f" where
  "ballResolution contactAngle v otherVel =
     (let rotation = rotate_deg Identity contactAngle;
          v1 = transformPoint rotation v;
          otherVel1 = transformPoint rotation otherVel
      in case swapYVelocities v1 otherVel1 of
           (v2, otherVel2) \<Rightarrow>
             (let rotation2 = rotate_deg rotation (- 2 * contactAngle)
              in (transformPoint rotation2 v2, transformPoint rotation2 otherVel2)))"

function handleBallCollisions_loop ::
  "graphicsRunner \<Rightarrow> nat \<Rightarrow> floatRect \<Rightarrow> int \<Rightarrow> fault + (bool \<times> graphicsRunner)" where
  "handleBallCollisions_loop g self bounds i =
     (if 0 \<le> i \<and> i < int (length (objects g)) then
        (case thisBall g self of
           Inl e \<Rightarrow> Inl e
         | Inr b \<Rightarrow>
             (let ob = objects g ! nat i
              in if (case dyn ob of BallObj other \<Rightarrow> collisionState other \<noteq> collisionState b | _ \<Rightarrow> False)
                 then handleBallCollisions_loop g self bounds (i + 1)
                 else
                   (case collision (dyn ob) bounds of
                      (c, boundsCopy) \<Rightarrow>
                        if c = CHR ''y'' then
                          (let contactAngle = getContactAngle (circ_position (circle b)) boundsCopy;
                               otherVel = Vector2f (rect_width boundsCopy) (rect_height boundsCopy)
                           in case ballResolution contactAngle (vel b) otherVel of
                                (v3, otherVel3) \<Rightarrow>
                                  (let g1 = putBall g self (b\<lparr>vel := v3\<rparr>)
                                   in case dyn (objects g1 ! nat i) of
                                        BallObj other \<Rightarrow>
                                          Inr (True, putBall g1 (nat i) (setVelocity other otherVel3))
                                      | _ \<Rightarrow> Inl BadCast))
                        else handleBallCollisions_loop g self bounds (i + 1))))
      else Inr (False, g))"
  by pat_completeness auto
termination
  by (relation "measure (\<lambda>(g, self, bounds, i). nat (int (length (objects g)) - i))") auto

declare handleBallCollisions_loop.simps [simp del]

definition handleBrickCollisions :: "graphicsRunner \<Rightarrow> nat \<Rightarrow> floatRect \<Rightarrow> fault + (bool \<times> graphicsRunner)" where
  "handleBrickCollisions g self bounds =
     handleBrickCollisions_loop g self bounds (indexOfFirstSafetyBrick g)"

definition handleBallCollisions :: "graphicsRunner \<Rightarrow> nat \<Rightarrow> floatRect \<Rightarrow> fault + (bool \<times> graphicsRunner)" where
  "handleBallCollisions g self bounds =
     handleBallCollisions_loop g self bounds
       (indexOfFirstSafetyBrick g + numSafetyBricks g + numBricks g)"

section \<open>The frame of a ball\<close>

text \<open>
  \<^verbatim>\<open>Ball::move\<close>. \<^verbatim>\<open>collisionChecks\<close> is the condition of the if statement that chains
  the attachment test and the four handlers with \<^verbatim>\<open>||\<close>; \<^verbatim>\<open>afterChecks\<close> is the rest of
  the method. \<^verbatim>\<open>BALL_MAX_SPEED\<close> comes from Constants.h and is a parameter.
\<close>

definition collisionChecks :: "graphicsRunner \<Rightarrow> nat \<Rightarrow> floatRect \<Rightarrow> fault + (bool \<times> graphicsRunner)" where
  "collisionChecks g self bounds =
     (case thisBall g self of
        Inl e \<Rightarrow> Inl e
      | Inr b \<Rightarrow>
          if isAttached b then Inr (True, g)
          else
            (case handleBarrierCollisions g self bounds of
               Inl e \<Rightarrow> Inl e
             | Inr (r1, g1) \<Rightarrow>
                 if r1 then Inr (True, g1)
                 else
                   (case handlePaddleCollisions g1 self bounds of
                      Inl e \<Rightarrow> Inl e
                    | Inr (r2, g2) \<Rightarrow>
                        if r2 then Inr (True, g2)
                        else
                          (case handleBrickCollisions g2 self bounds of
                             Inl e \<Rightarrow> Inl e
                           | Inr (r3, g3) \<Rightarrow>
                               if r3 then Inr (True, g3)
                               else handleBallCollisions g3 self bounds))))"

definition snapToAnchor :: "graphicsRunner \<Rightarrow> ball \<Rightarrow> fault + ball" where
  "snapToAnchor g b =
     (case attachedPos b of
        None \<Rightarrow> Inr b
      | Some p \<Rightarrow>
          (case deref g p of
             Inl e \<Rightarrow> Inl e
           | Inr a \<Rightarrow>
               Inr (b\<lparr>circle := setPosition (circle b) (vec_x a) (vec_y a - circ_radius (circle b))\<rparr>)))"

definition slowDown :: "real \<Rightarrow> ball \<Rightarrow> ball" where
  "slowDown BALL_MAX_SPEED b =
     (if vec_x (vel b) > BALL_MAX_SPEED \<or> vec_y (vel b) > BALL_MAX_SPEED
      then b\<lparr>vel := \<lparr>vec_x = vec_x (vel b) * 0.99, vec_y = vec_y (vel b) * 0.99\<rparr>\<rparr>
      else b)"

definition afterChecks :: "real \<Rightarrow> graphicsRunner \<Rightarrow> nat \<Rightarrow> bool \<Rightarrow> fault + graphicsRunner" where
  "afterChecks BALL_MAX_SPEED g self cond =
     (case thisBall g self of
        Inl e \<Rightarrow> Inl e
      | Inr b \<Rightarrow>
          (let b1 = (if cond \<and> \<not> isAttached b
                     then b\<lparr>circle := shape_move (circle b) (vec_x (vel b) * 0.5) (vec_y (vel b) * 0.5)\<rparr>
                     else b);
               b2 = b1\<lparr>collisionState := \<not> collisionState b1\<rparr>
           in case snapToAnchor g b2 of
                Inl e \<Rightarrow> Inl e
              | Inr b3 \<Rightarrow>
                  (let b4 = slowDown BALL_MAX_SPEED b3;
                       b5 = b4\<lparr>circle := shape_move (circle b4) (vec_x (vel b4)) (vec_y (vel b4))\<rparr>
                   in Inr (putBall g self b5))))"

definition move :: "real \<Rightarrow> graphicsRunner \<Rightarrow> nat \<Rightarrow> fault + graphicsRunner" where
  "move BALL_MAX_SPEED g self =
     (case thisBall g self of
        Inl e \<Rightarrow> Inl e
      | Inr b \<Rightarrow>
          (let bounds = getGlobalBounds (circle b)
           in if rect_top bounds > real (snd (windowSize g))
              then Inr (markDeleted g self)
              else
                (case collisionChecks g self bounds of
                   Inl e \<Rightarrow> Inl e
                 | Inr (cond, g1) \<Rightarrow> afterChecks BALL_MAX_SPEED g1 self cond)))"

section \<open>A small stage\<close>

text \<open>
  The layout the constructor of \<^verbatim>\<open>GraphicsRunner\<close> builds, paddle first and barrier
  second, in an 800 by 600 window with no bricks, followed by the given balls.
\<close>

definition stage :: "ball list \<Rightarrow> graphicsRunner" where
  "stage balls =
     \<lparr>objects = newObject (PaddleObj (Paddle 400 560 100 20 (FloatRect 0 0 20 20)))
                # newObject (BarrierObj (Barrier 50 800 600 10 5))
                # map (\<lambda>b. newObject (BallObj b)) balls,
      indexOfFirstSafetyBrick = 2,
      numSafetyBricks = 0,
      numBricks = 0,
      windowSize = (800, 600)\<rparr>"

section \<open>Well-formed games\<close>

text \<open>
  What a ball's frame needs of the layout the game keeps (paddle, barrier, bricks,
  balls): a paddle in slot 0, a barrier in slot 1, and the index range of the bricks
  inside the vector. Then no read of the frame is out of range.
\<close>

definition wellFormed :: "graphicsRunner \<Rightarrow> bool" where
  "wellFormed g =
     (2 \<le> length (objects g)
      \<and> (case dyn (objects g ! 0) of PaddleObj p \<Rightarrow> True | _ \<Rightarrow> False)
      \<and> (case dyn (objects g ! 1) of BarrierObj w \<Rightarrow> True | _ \<Rightarrow> False)
      \<and> 0 \<le> indexOfFirstSafetyBrick g
      \<and> indexOfFirstSafetyBrick g + numSafetyBricks g + numBricks g \<le> int (length (objects g)))"

section \<open>The total velocity of the balls\<close>

text \<open>
  The sum of one velocity component over all balls of the game; a ball contact is meant
  to conserve it.
\<close>

definition ballsSum :: "(vector2f \<Rightarrow> real) \<Rightarrow> graphicsRunner \<Rightarrow> real" where
  "ballsSum f g =
     sum_list (map (\<lambda>ob. case dyn ob of BallObj b \<Rightarrow> f (vel b) | _ \<Rightarrow> 0) (objects g))"

section \<open>The brick's dispatch as the specification words it\<close>

text \<open>
  The four corners of a rectangle in the order top left, top right, bottom right, bottom
  left, and the dispatch of section 4.2 of the specification for a circle whose box
  overlaps the brick's: top or bottom midline point inside the brick, else left or right
  midline point inside, else the first corner nearer to the centre than the radius, else
  no contact.
\<close>

definition corners :: "floatRect \<Rightarrow> vector2f list" where
  "corners r =
     [Vector2f (rect_left r) (rect_top r),
      Vector2f (rect_left r + rect_width r) (rect_top r),
      Vector2f (rect_left r + rect_width r) (rect_top r + rect_height r),
      Vector2f (rect_left r) (rect_top r + rect_height r)]"

definition Brick_collision_spec :: "brick \<Rightarrow> floatRect \<Rightarrow> char \<times> floatRect" where
  "Brick_collision_spec k circ =
     (let cx = rect_left circ + rect_width circ / 2;
          cy = rect_top circ + rect_height circ / 2;
          radius = rect_width circ / 2;
          inside = contains (brick_rectangle k)
      in if inside cx (rect_top circ) \<or> inside cx (rect_top circ + rect_height circ)
         then (CHR ''v'', circ)
         else if inside (rect_left circ) cy \<or> inside (rect_left circ + rect_width circ) cy
         then (CHR ''h'', circ)
         else (case find (\<lambda>p. euclid (cx - vec_x p) (cy - vec_y p) < radius) (corners (brick_rectangle k)) of
                 Some p \<Rightarrow> (CHR ''c'', circ\<lparr>rect_left := vec_x p, rect_top := vec_y p\<rparr>)
               | None \<Rightarrow> (CHR ''n'', circ)))"

section \<open>Facts about the geometry\<close>

lemma contains_FloatRect:
  "contains (FloatRect l t w h) px py =
     (min l (l + w) \<le> px \<and> px < max l (l + w) \<and> min t (t + h) \<le> py \<and> py < max t (t + h))"
  by (simp add: contains_def FloatRect_def Let_def)

lemma intersects_FloatRect:
  "intersects (FloatRect l1 t1 w1 h1) (FloatRect l2 t2 w2 h2) =
     (max (min l1 (l1 + w1)) (min l2 (l2 + w2)) < min (max l1 (l1 + w1)) (max l2 (l2 + w2))
      \<and> max (min t1 (t1 + h1)) (min t2 (t2 + h2)) < min (max t1 (t1 + h1)) (max t2 (t2 + h2)))"
  by (simp add: intersects_def FloatRect_def Let_def)

lemma rotate_deg_Identity:
  "rotate_deg Identity a = \<lparr>a00 = cos (a * pi / 180), a01 = - sin (a * pi / 180), a02 = 0,
                         a10 = sin (a * pi / 180), a11 = cos (a * pi / 180), a12 = 0\<rparr>"
  by (simp add: rotate_deg_def Identity_def combine_def Let_def)

lemma rotate_deg_twice:
  "rotate_deg (rotate_deg Identity a) b = rotate_deg Identity (a + b)"
proof -
  have e: "(a + b) * pi / 180 = a * pi / 180 + b * pi / 180"
    by (simp add: algebra_simps add_divide_distrib)
  show ?thesis
    unfolding rotate_deg_Identity e cos_add sin_add
    by (simp add: rotate_deg_def combine_def Let_def algebra_simps)
qed

lemma unit_circle_inverse:
  fixes c s p q :: real
  assumes "c * c + s * s = 1"
  shows "c * (c * p - s * q) + s * (s * p + c * q) = p"
    and "c * (s * p + c * q) - s * (c * p - s * q) = q"
proof -
  have "c * (c * p - s * q) + s * (s * p + c * q) = (c * c + s * s) * p"
    by (simp add: algebra_simps)
  then show "c * (c * p - s * q) + s * (s * p + c * q) = p"
    by (simp add: assms)
  have "c * (s * p + c * q) - s * (c * p - s * q) = (c * c + s * s) * q"
    by (simp add: algebra_simps)
  then show "c * (s * p + c * q) - s * (c * p - s * q) = q"
    by (simp add: assms)
qed

lemma rotate_back:
  "transformPoint (rotate_deg (rotate_deg Identity a) (- 2 * a)) (transformPoint (rotate_deg Identity a) v) = v"
proof -
  have m: "rotate_deg (rotate_deg Identity a) (- 2 * a) = rotate_deg Identity (- a)"
    by (simp add: rotate_deg_twice)
  have c: "cos (a * pi / 180) * cos (a * pi / 180) + sin (a * pi / 180) * sin (a * pi / 180) = 1"
    using sin_cos_squared_add3 [of "a * pi / 180"] by (simp add: add.commute)
  have "transformPoint (rotate_deg Identity (- a)) (transformPoint (rotate_deg Identity a) v) = v"
    unfolding rotate_deg_Identity
    using unit_circle_inverse [OF c, of "vec_x v" "vec_y v"]
    by (simp add: transformPoint_def Vector2f_def)
  then show ?thesis
    by (simp only: m)
qed

lemma transformPoint_add:
  "a02 t = 0 \<Longrightarrow> a12 t = 0 \<Longrightarrow>
   vec_x (transformPoint t p) + vec_x (transformPoint t q) = vec_x (transformPoint t \<lparr>vec_x = vec_x p + vec_x q, vec_y = vec_y p + vec_y q\<rparr>)
   \<and> vec_y (transformPoint t p) + vec_y (transformPoint t q) = vec_y (transformPoint t \<lparr>vec_x = vec_x p + vec_x q, vec_y = vec_y p + vec_y q\<rparr>)"
  by (simp add: transformPoint_def Vector2f_def algebra_simps)

section \<open>Facts about the game and the small stage\<close>

lemma thisBall_Inr:
  "thisBall g self = Inr b \<longleftrightarrow> self < length (objects g) \<and> dyn (objects g ! self) = BallObj b"
  by (auto simp: thisBall_def nth_object_def split: shape.splits)

lemma FloatRect_sel:
  "rect_left (FloatRect l t w h) = l"
  "rect_top (FloatRect l t w h) = t"
  "rect_width (FloatRect l t w h) = w"
  "rect_height (FloatRect l t w h) = h"
  by (simp_all add: FloatRect_def)

lemma Vector2f_sel:
  "vec_x (Vector2f a b) = a"
  "vec_y (Vector2f a b) = b"
  by (simp_all add: Vector2f_def)

lemma stage_simps:
  "objects (stage bs) ! 0 = newObject (PaddleObj (Paddle 400 560 100 20 (FloatRect 0 0 20 20)))"
  "objects (stage bs) ! Suc 0 = newObject (BarrierObj (Barrier 50 800 600 10 5))"
  "objects (stage (b # bs)) ! 2 = newObject (BallObj b)"
  "objects (stage (b # c # bs)) ! 3 = newObject (BallObj c)"
  "length (objects (stage bs)) = length bs + 2"
  "windowSize (stage bs) = (800, 600)"
  "indexOfFirstSafetyBrick (stage bs) = 2"
  "numSafetyBricks (stage bs) = 0"
  "numBricks (stage bs) = 0"
  by (simp_all add: stage_def numeral_3_eq_3 numeral_2_eq_2)

lemma putBall_stage:
  "putBall (stage [b]) 2 b' = stage [b']"
  "putBall (stage [b, c]) 2 b' = stage [b', c]"
  "putBall (stage [b, c]) 3 c' = stage [b, c']"
  by (simp_all add: putBall_def stage_def newObject_def numeral_3_eq_3 numeral_2_eq_2)

lemma thisBall_stage:
  "thisBall (stage (b # bs)) 2 = Inr b"
  "thisBall (stage (b # c # bs)) 3 = Inr c"
  by (simp_all add: thisBall_def nth_object_def stage_simps newObject_def)

lemma deref_stage: "deref (stage bs) PaddlePos = Inr (Vector2f 400 560)"
  by (simp add: deref_def getPaddle_def nth_object_def stage_simps newObject_def Paddle_def)

section \<open>Facts about the handlers\<close>

text \<open>
  Each handler returns, keeps the running ball a ball, and leaves its circle, attachment
  and parity flag alone; a handler that reports no collision leaves the ball as it was.
\<close>

lemma thisBall_markDeleted: "thisBall (markDeleted g k) self = thisBall g self"
  by (cases "k < length (objects g)"; cases "k = self")
     (auto simp: thisBall_def markDeleted_def nth_object_def split: shape.splits)

lemma thisBall_putBall_same:
  "self < length (objects g) \<Longrightarrow> thisBall (putBall g self b) self = Inr b"
  by (simp add: thisBall_def putBall_def nth_object_def)

lemma thisBall_putBall_other:
  "k \<noteq> self \<Longrightarrow> thisBall (putBall g k b) self = thisBall g self"
  by (simp add: thisBall_def putBall_def nth_object_def)

lemma length_putBall [simp]: "length (objects (putBall g k b)) = length (objects g)"
  by (simp add: putBall_def)

lemma length_markDeleted [simp]: "length (objects (markDeleted g k)) = length (objects g)"
  by (simp add: markDeleted_def)

lemma putBall_same: "thisBall g self = Inr b \<Longrightarrow> putBall g self b = g"
  by (cases g) (simp add: thisBall_Inr putBall_def list_update_same_conv)

lemma Paddle_collision_not_y: "fst (Paddle_collision p bb) \<noteq> CHR ''y''"
  by (simp add: Paddle_collision_def Let_def)

lemma Barrier_collision_not_y: "fst (Barrier_collision w bb) \<noteq> CHR ''y''"
  by (simp add: Barrier_collision_def)

lemma Brick_collision_not_y: "fst (Brick_collision k bb) \<noteq> CHR ''y''"
  by (simp add: Brick_collision_def Let_def)

lemma collision_y_is_ball:
  assumes "collision s bb = (CHR ''y'', bc)"
  shows "\<exists>other. s = BallObj other"
proof (cases s)
  case (PaddleObj p)
  with assms Paddle_collision_not_y [of p bb] show ?thesis by (simp add: collision_def)
next
  case (BarrierObj w)
  with assms Barrier_collision_not_y [of w bb] show ?thesis by (simp add: collision_def)
next
  case (BrickObj k)
  with assms Brick_collision_not_y [of k bb] show ?thesis by (simp add: collision_def)
next
  case (BallObj other)
  then show ?thesis by simp
qed

lemma handleBallCollisions_loop_frame:
  assumes "thisBall g self = Inr b"
  shows "\<exists>r g' b'. handleBallCollisions_loop g self bounds i = Inr (r, g')
           \<and> thisBall g' self = Inr b'
           \<and> circle b' = circle b \<and> attachedPos b' = attachedPos b
           \<and> collisionState b' = collisionState b
           \<and> (\<not> r \<longrightarrow> g' = g)"
  using assms
proof (induction g self bounds i rule: handleBallCollisions_loop.induct)
  case (1 g self bounds i)
  note tb = "1.prems"
  then have sl: "self < length (objects g)"
    by (simp add: thisBall_Inr)
  show ?case
  proof (cases "0 \<le> i \<and> i < int (length (objects g))")
    case False
    then have "handleBallCollisions_loop g self bounds i = Inr (False, g)"
      by (subst handleBallCollisions_loop.simps) auto
    with tb show ?thesis
      by auto
  next
    case inr: True
    let ?ob = "objects g ! nat i"
    show ?thesis
    proof (cases "case dyn ?ob of BallObj other \<Rightarrow> collisionState other \<noteq> collisionState b | _ \<Rightarrow> False")
      case skip: True
      from "1.IH"(1) [OF inr tb refl skip tb] skip inr tb show ?thesis
        by (subst handleBallCollisions_loop.simps) (auto simp: Let_def)
    next
      case noskip: False
      obtain c boundsCopy where cb: "collision (dyn ?ob) bounds = (c, boundsCopy)"
        by fastforce
      show ?thesis
      proof (cases "c = CHR ''y''")
        case False
        from "1.IH"(2) [OF inr tb refl noskip cb [symmetric] False] False noskip inr tb cb show ?thesis
          by (subst handleBallCollisions_loop.simps) (auto simp: Let_def)
      next
        case True
        with cb obtain other where ot: "dyn ?ob = BallObj other"
          using collision_y_is_ball by blast
        obtain v3 o3 where res:
          "ballResolution (getContactAngle (circ_position (circle b)) boundsCopy) (vel b)
             (Vector2f (rect_width boundsCopy) (rect_height boundsCopy)) = (v3, o3)"
          by fastforce
        let ?g1 = "putBall g self (b\<lparr>vel := v3\<rparr>)"
        have il: "nat i < length (objects g)"
          using inr by linarith
        show ?thesis
        proof (cases "nat i = self")
          case same: True
          have d1: "dyn (objects ?g1 ! nat i) = BallObj (b\<lparr>vel := v3\<rparr>)"
            using same sl by (simp add: putBall_def)
          have "thisBall (putBall ?g1 (nat i) (setVelocity (b\<lparr>vel := v3\<rparr>) o3)) self
                  = Inr (setVelocity (b\<lparr>vel := v3\<rparr>) o3)"
            using same sl by (simp add: thisBall_putBall_same)
          with True noskip inr tb cb res d1 show ?thesis
            by (subst handleBallCollisions_loop.simps) (auto simp: Let_def setVelocity_def)
        next
          case diff: False
          have d1: "dyn (objects ?g1 ! nat i) = BallObj other"
            using diff ot by (simp add: putBall_def)
          have "thisBall (putBall ?g1 (nat i) (setVelocity other o3)) self = Inr (b\<lparr>vel := v3\<rparr>)"
            using diff sl by (simp add: thisBall_putBall_other thisBall_putBall_same)
          with True noskip inr tb cb res d1 show ?thesis
            by (subst handleBallCollisions_loop.simps) (auto simp: Let_def)
        qed
      qed
    qed
  qed
qed

lemma markDeleted_fields [simp]:
  "indexOfFirstSafetyBrick (markDeleted g k) = indexOfFirstSafetyBrick g"
  "numSafetyBricks (markDeleted g k) = numSafetyBricks g"
  "numBricks (markDeleted g k) = numBricks g"
  "windowSize (markDeleted g k) = windowSize g"
  by (simp_all add: markDeleted_def)

lemma putBall_fields [simp]:
  "indexOfFirstSafetyBrick (putBall g k b) = indexOfFirstSafetyBrick g"
  "numSafetyBricks (putBall g k b) = numSafetyBricks g"
  "numBricks (putBall g k b) = numBricks g"
  "windowSize (putBall g k b) = windowSize g"
  by (simp_all add: putBall_def)

lemma handleSimpleCollision_frame:
  "handleSimpleCollision c b = (handled, b1) \<Longrightarrow>
     circle b1 = circle b \<and> attachedPos b1 = attachedPos b \<and> collisionState b1 = collisionState b
     \<and> (\<not> handled \<longrightarrow> b1 = b)"
  by (auto simp: handleSimpleCollision_def split: if_splits)

lemma handleBrickCollisions_loop_frame:
  assumes "thisBall g self = Inr b"
    and "0 \<le> i"
    and "indexOfFirstSafetyBrick g + numSafetyBricks g + numBricks g \<le> int (length (objects g))"
  shows "\<exists>r g' b'. handleBrickCollisions_loop g self bounds i = Inr (r, g')
           \<and> thisBall g' self = Inr b'
           \<and> circle b' = circle b \<and> attachedPos b' = attachedPos b
           \<and> collisionState b' = collisionState b
           \<and> (\<not> r \<longrightarrow> b' = b)"
  using assms
proof (induction g self bounds i rule: handleBrickCollisions_loop.induct)
  case (1 g self bounds i)
  note tb = "1.prems"(1) and i0 = "1.prems"(2) and hi = "1.prems"(3)
  from tb have sl: "self < length (objects g)"
    by (simp add: thisBall_Inr)
  show ?case
  proof (cases "i < indexOfFirstSafetyBrick g + numSafetyBricks g + numBricks g")
    case False
    then have "handleBrickCollisions_loop g self bounds i = Inr (False, g)"
      by (subst handleBrickCollisions_loop.simps) auto
    with tb show ?thesis
      by auto
  next
    case inr: True
    let ?ob = "objects g ! nat i"
    have no: "nth_object (objects g) i = Inr ?ob"
      using inr i0 hi by (simp add: nth_object_def)
    obtain c boundsCopy where cb: "collision (dyn ?ob) bounds = (c, boundsCopy)"
      by fastforce
    let ?g1 = "if c \<noteq> CHR ''n'' then markDeleted g (nat i) else g"
    have tb1: "thisBall ?g1 self = Inr b"
      using tb by (simp add: thisBall_markDeleted)
    have sl1: "self < length (objects ?g1)"
      using sl by simp
    obtain handled b1 where hs: "handleSimpleCollision c b = (handled, b1)"
      by fastforce
    note fr = handleSimpleCollision_frame [OF hs]
    have unfold: "handleBrickCollisions_loop g self bounds i =
           (if handled then Inr (True, putBall ?g1 self b1)
            else if c = CHR ''c'' then
              Inr (True, putBall ?g1 self
                (b\<lparr>vel := transformPoint
                    (rotate_deg (rotate_deg Identity (getContactAngle (circ_position (circle b)) boundsCopy))
                       (- 2 * getContactAngle (circ_position (circle b)) boundsCopy))
                    ((transformPoint (rotate_deg Identity (getContactAngle (circ_position (circle b)) boundsCopy)) (vel b))
                       \<lparr>vec_y := vec_y (transformPoint (rotate_deg Identity (getContactAngle (circ_position (circle b)) boundsCopy)) (vel b)) * (- 1)\<rparr>)\<rparr>))
            else handleBrickCollisions_loop ?g1 self bounds (i + 1))"
      using inr no cb tb1 hs
      by (subst handleBrickCollisions_loop.simps) (simp add: Let_def)
    show ?thesis
    proof (cases handled)
      case True
      with unfold fr sl1 show ?thesis
        by (auto simp: thisBall_putBall_same)
    next
      case nh: False
      show ?thesis
      proof (cases "c = CHR ''c''")
        case True
        with unfold nh sl1 show ?thesis
          by (auto simp: thisBall_putBall_same)
      next
        case False
        have hi1: "indexOfFirstSafetyBrick ?g1 + numSafetyBricks ?g1 + numBricks ?g1
                     \<le> int (length (objects ?g1))"
          using hi by simp
        have i1: "0 \<le> i + 1"
          using i0 by simp
        from "1.IH" [OF inr no cb [symmetric] refl tb1 hs [symmetric] nh False tb1 i1 hi1]
             unfold nh False
        show ?thesis
          by auto
      qed
    qed
  qed
qed

lemma handleBarrierCollisions_frame:
  assumes "thisBall g self = Inr b" and "2 \<le> length (objects g)"
  shows "\<exists>r g' b'. handleBarrierCollisions g self bounds = Inr (r, g')
           \<and> thisBall g' self = Inr b'
           \<and> circle b' = circle b \<and> attachedPos b' = attachedPos b
           \<and> collisionState b' = collisionState b
           \<and> (\<not> r \<longrightarrow> g' = g)"
proof -
  from assms(1) have sl: "self < length (objects g)"
    by (simp add: thisBall_Inr)
  obtain c boundsCopy where cb: "collision (dyn (objects g ! 1)) bounds = (c, boundsCopy)"
    by fastforce
  obtain handled b1 where hs: "handleSimpleCollision c b = (handled, b1)"
    by fastforce
  have "handleBarrierCollisions g self bounds = Inr (handled, putBall g self b1)"
    using assms cb hs by (simp add: handleBarrierCollisions_def getBarrier_def nth_object_def)
  with handleSimpleCollision_frame [OF hs] sl assms(1) show ?thesis
    by (auto simp: thisBall_putBall_same putBall_same)
qed

lemma handlePaddleCollisions_frame:
  assumes "thisBall g self = Inr b" and "2 \<le> length (objects g)"
  shows "\<exists>r g' b'. handlePaddleCollisions g self bounds = Inr (r, g')
           \<and> thisBall g' self = Inr b'
           \<and> circle b' = circle b \<and> attachedPos b' = attachedPos b
           \<and> collisionState b' = collisionState b
           \<and> (\<not> r \<longrightarrow> g' = g)"
proof -
  from assms(1) have sl: "self < length (objects g)"
    by (simp add: thisBall_Inr)
  obtain c boundsCopy where cb: "collision (dyn (objects g ! 0)) bounds = (c, boundsCopy)"
    by fastforce
  have gp: "getPaddle g = Inr (objects g ! 0)"
    using assms(2) by (auto simp: getPaddle_def nth_object_def)
  show ?thesis
    using assms(1) gp cb sl
    by (auto simp: handlePaddleCollisions_def Let_def thisBall_putBall_same)
qed

lemma collisionChecks_frame:
  assumes "thisBall g self = Inr b" and "wellFormed g"
  shows "\<exists>r g' b'. collisionChecks g self bounds = Inr (r, g')
           \<and> thisBall g' self = Inr b'
           \<and> circle b' = circle b \<and> attachedPos b' = attachedPos b
           \<and> collisionState b' = collisionState b
           \<and> (\<not> r \<longrightarrow> b' = b)
           \<and> (isAttached b \<longrightarrow> g' = g)"
proof (cases "isAttached b")
  case True
  with assms(1) show ?thesis
    by (auto simp: collisionChecks_def)
next
  case free: False
  from assms(2) have len: "2 \<le> length (objects g)"
    and i0: "0 \<le> indexOfFirstSafetyBrick g"
    and hi: "indexOfFirstSafetyBrick g + numSafetyBricks g + numBricks g \<le> int (length (objects g))"
    by (simp_all add: wellFormed_def)
  from handleBarrierCollisions_frame [OF assms(1) len, of bounds]
  obtain r1 g1 b1 where s1: "handleBarrierCollisions g self bounds = Inr (r1, g1)"
    and t1: "thisBall g1 self = Inr b1"
    and f1: "circle b1 = circle b" "attachedPos b1 = attachedPos b" "collisionState b1 = collisionState b"
    and n1: "\<not> r1 \<longrightarrow> g1 = g"
    by blast
  show ?thesis
  proof (cases r1)
    case True
    with assms(1) free s1 t1 f1 show ?thesis
      by (auto simp: collisionChecks_def)
  next
    case r1f: False
    with n1 have g1: "g1 = g" by simp
    from handlePaddleCollisions_frame [OF assms(1) len, of bounds]
    obtain r2 g2 b2 where s2: "handlePaddleCollisions g self bounds = Inr (r2, g2)"
      and t2: "thisBall g2 self = Inr b2"
      and f2: "circle b2 = circle b" "attachedPos b2 = attachedPos b" "collisionState b2 = collisionState b"
      and n2: "\<not> r2 \<longrightarrow> g2 = g"
      by blast
    show ?thesis
    proof (cases r2)
      case True
      with assms(1) free s1 r1f g1 s2 t2 f2 show ?thesis
        by (auto simp: collisionChecks_def)
    next
      case r2f: False
      with n2 have g2: "g2 = g" by simp
      from handleBrickCollisions_loop_frame [OF assms(1) i0 hi, of bounds]
      obtain r3 g3 b3 where s3: "handleBrickCollisions g self bounds = Inr (r3, g3)"
        and t3: "thisBall g3 self = Inr b3"
        and f3: "circle b3 = circle b" "attachedPos b3 = attachedPos b" "collisionState b3 = collisionState b"
        and n3: "\<not> r3 \<longrightarrow> b3 = b"
        unfolding handleBrickCollisions_def by blast
      show ?thesis
      proof (cases r3)
        case True
        with assms(1) free s1 r1f g1 s2 r2f g2 s3 t3 f3 show ?thesis
          by (auto simp: collisionChecks_def)
      next
        case r3f: False
        with n3 have b3: "b3 = b" by simp
        from handleBallCollisions_loop_frame [OF t3, of bounds]
        obtain r4 g4 b4 where s4: "handleBallCollisions g3 self bounds = Inr (r4, g4)"
          and t4: "thisBall g4 self = Inr b4"
          and f4: "circle b4 = circle b3" "attachedPos b4 = attachedPos b3" "collisionState b4 = collisionState b3"
          and n4: "\<not> r4 \<longrightarrow> g4 = g3"
          unfolding handleBallCollisions_def by blast
        from n4 t3 t4 b3 have "\<not> r4 \<longrightarrow> b4 = b"
          by auto
        with assms(1) free s1 r1f g1 s2 r2f g2 s3 r3f s4 t4 f4 b3 show ?thesis
          by (auto simp: collisionChecks_def)
      qed
    qed
  qed
qed

lemma deref_wellFormed:
  assumes "wellFormed g"
  shows "\<exists>a. deref g p = Inr a"
proof (cases p)
  case PaddlePos
  from assms have len: "2 \<le> length (objects g)"
    and pad: "case dyn (objects g ! 0) of PaddleObj p \<Rightarrow> True | _ \<Rightarrow> False"
    by (simp_all add: wellFormed_def)
  from len have "getPaddle g = Inr (objects g ! 0)"
    by (auto simp: getPaddle_def nth_object_def)
  with pad PaddlePos show ?thesis
    by (auto simp: deref_def split: shape.splits)
qed

lemma slowDown_frame:
  "circle (slowDown m b) = circle b"
  "attachedPos (slowDown m b) = attachedPos b"
  "collisionState (slowDown m b) = collisionState b"
  by (simp_all add: slowDown_def)

lemma afterChecks_result:
  assumes "thisBall g1 self = Inr b1"
    and "\<And>p. attachedPos b1 = Some p \<Longrightarrow> \<exists>a. deref g1 p = Inr a"
  shows "\<exists>g' b'. afterChecks m g1 self r = Inr g'
           \<and> thisBall g' self = Inr b'
           \<and> collisionState b' = (\<not> collisionState b1)
           \<and> attachedPos b' = attachedPos b1
           \<and> vel b' = vel (slowDown m b1)"
proof -
  from assms(1) have sl: "self < length (objects g1)"
    by (simp add: thisBall_Inr)
  show ?thesis
  proof (cases "attachedPos b1")
    case None
    with assms(1) sl show ?thesis
      by (auto simp: afterChecks_def snapToAnchor_def Let_def thisBall_putBall_same slowDown_frame
            slowDown_def isAttached_def)
  next
    case (Some p)
    with assms(2) obtain a where "deref g1 p = Inr a"
      by blast
    with Some assms(1) sl show ?thesis
      by (auto simp: afterChecks_def snapToAnchor_def Let_def thisBall_putBall_same slowDown_frame
            slowDown_def isAttached_def)
  qed
qed

lemma wellFormed_stage: "wellFormed (stage bs)"
  by (simp add: wellFormed_def stage_simps newObject_def)

lemma mid_field_bounds:
  "getGlobalBounds (circle (FreeBall 400 300 vx vy 5 (FloatRect 0 0 10 10))) = FloatRect 395 295 10 10"
  by (simp add: getGlobalBounds_def FreeBall_def FloatRect_def Vector2f_def)

lemma mid_field_no_wall:
  "Barrier_collision (Barrier 50 800 600 10 5) (FloatRect 395 295 10 10) = (CHR ''n'', FloatRect 395 295 10 10)"
  by (simp add: Barrier_collision_def Barrier_def intersects_FloatRect)

lemma mid_field_no_paddle:
  "Paddle_collision (Paddle 400 560 100 20 (FloatRect 0 0 20 20)) (FloatRect 395 295 10 10)
     = (CHR ''n'', FloatRect 395 295 10 10)"
  by (simp add: Paddle_collision_def Paddle_def getGlobalBounds_def Vector2f_sel FloatRect_sel
        intersects_FloatRect Let_def)

lemma mid_field_not_itself:
  "Ball_collision (FreeBall 400 300 vx vy 5 (FloatRect 0 0 10 10)) (FloatRect 395 295 10 10)
     = (CHR ''n'', FloatRect 395 295 10 10)"
  by (simp add: Ball_collision_def FreeBall_def isAttached_def Vector2f_sel FloatRect_sel euclid_def Let_def)

lemma free_flight:
  "collisionChecks (stage [FreeBall 400 300 vx vy 5 (FloatRect 0 0 10 10)]) 2 (FloatRect 395 295 10 10)
     = Inr (False, stage [FreeBall 400 300 vx vy 5 (FloatRect 0 0 10 10)])"
proof -
  let ?b = "FreeBall 400 300 vx vy 5 (FloatRect 0 0 10 10)"
  let ?g = "stage [?b]"
  let ?bb = "FloatRect 395 295 10 10"
  have fr: "\<not> isAttached ?b"
    by (simp add: FreeBall_def isAttached_def)
  have w: "handleBarrierCollisions ?g 2 ?bb = Inr (False, ?g)"
    by (simp add: handleBarrierCollisions_def getBarrier_def nth_object_def stage_simps thisBall_stage
          newObject_def collision_def mid_field_no_wall handleSimpleCollision_def putBall_stage)
  have p: "handlePaddleCollisions ?g 2 ?bb = Inr (False, ?g)"
    by (simp add: handlePaddleCollisions_def getPaddle_def nth_object_def stage_simps thisBall_stage
          newObject_def collision_def mid_field_no_paddle)
  have k: "handleBrickCollisions ?g 2 ?bb = Inr (False, ?g)"
    by (simp add: handleBrickCollisions_def stage_simps)
       (subst handleBrickCollisions_loop.simps, simp add: stage_simps)
  have b3: "handleBallCollisions_loop ?g 2 ?bb 3 = Inr (False, ?g)"
    by (subst handleBallCollisions_loop.simps) (simp add: stage_simps)
  have b2: "handleBallCollisions_loop ?g 2 ?bb 2 = Inr (False, ?g)"
    by (subst handleBallCollisions_loop.simps)
       (simp add: stage_simps thisBall_stage newObject_def collision_def mid_field_not_itself b3)
  have b: "handleBallCollisions ?g 2 ?bb = Inr (False, ?g)"
    by (simp add: handleBallCollisions_def stage_simps b2)
  show ?thesis
    by (simp add: collisionChecks_def thisBall_stage fr w p k b)
qed

lemma free_flight_move:
  "move 10 (stage [FreeBall 400 300 vx vy 5 (FloatRect 0 0 10 10)]) 2
     = Inr (stage [(slowDown 10 (FreeBall 400 300 vx vy 5 (FloatRect 0 0 10 10)))
                    \<lparr>circle := shape_move (circle (FreeBall 400 300 vx vy 5 (FloatRect 0 0 10 10)))
                                  (vec_x (vel (slowDown 10 (FreeBall 400 300 vx vy 5 (FloatRect 0 0 10 10)))))
                                  (vec_y (vel (slowDown 10 (FreeBall 400 300 vx vy 5 (FloatRect 0 0 10 10))))),
                     collisionState := True\<rparr>])"
proof -
  let ?b = "FreeBall 400 300 vx vy 5 (FloatRect 0 0 10 10)"
  have a: "attachedPos ?b = None" "collisionState ?b = False"
    by (simp_all add: FreeBall_def)
  have r: "(slowDown 10 (?b\<lparr>collisionState := True\<rparr>))
             \<lparr>circle := shape_move (circle (slowDown 10 (?b\<lparr>collisionState := True\<rparr>)))
                           (vec_x (vel (slowDown 10 (?b\<lparr>collisionState := True\<rparr>))))
                           (vec_y (vel (slowDown 10 (?b\<lparr>collisionState := True\<rparr>))))\<rparr>
           = (slowDown 10 ?b)
               \<lparr>circle := shape_move (circle ?b) (vec_x (vel (slowDown 10 ?b))) (vec_y (vel (slowDown 10 ?b))),
                collisionState := True\<rparr>"
    by (simp add: slowDown_def)
  show ?thesis
    by (simp add: move_def thisBall_stage mid_field_bounds stage_simps FloatRect_sel free_flight
          afterChecks_def snapToAnchor_def putBall_stage Let_def a isAttached_def r)
qed

section \<open>Facts about ball contacts\<close>

lemma sum_list_map_update:
  fixes f :: "'a \<Rightarrow> real"
  shows "i < length xs \<Longrightarrow> sum_list (map f (xs[i := x])) = sum_list (map f xs) - f (xs ! i) + f x"
proof (induction xs arbitrary: i)
  case Nil
  then show ?case by simp
next
  case (Cons a xs)
  then show ?case by (cases i) simp_all
qed

lemma ballsSum_putBall:
  assumes "thisBall g k = Inr b"
  shows "ballsSum f (putBall g k b') = ballsSum f g - f (vel b) + f (vel b')"
proof -
  from assms have k: "k < length (objects g)" and d: "dyn (objects g ! k) = BallObj b"
    by (simp_all add: thisBall_Inr)
  show ?thesis
    unfolding ballsSum_def putBall_def
    by (simp add: sum_list_map_update [OF k] d)
qed

lemma Ball_collision_y:
  assumes "Ball_collision other bb = (CHR ''y'', bc)"
  shows "rect_width bc = vec_x (vel other) \<and> rect_height bc = vec_y (vel other)"
  using assms by (auto simp: Ball_collision_def Let_def split: if_splits)

lemma ballResolution_same:
  "ballResolution a v v = (v, v)"
proof -
  have "(transformPoint (rotate_deg Identity a) v)\<lparr>vec_y := vec_y (transformPoint (rotate_deg Identity a) v)\<rparr>
          = transformPoint (rotate_deg Identity a) v"
    by simp
  with rotate_back [of a v] show ?thesis
    by (simp add: ballResolution_def swapYVelocities_def Let_def)
qed


lemma ball_resolution_sum:
  "case ballResolution a v w of
     (v', w') \<Rightarrow> vec_x v' + vec_x w' = vec_x v + vec_x w \<and> vec_y v' + vec_y w' = vec_y v + vec_y w"
proof -
  let ?r = "rotate_deg Identity a"
  let ?r2 = "rotate_deg ?r (- 2 * a)"
  let ?s = "\<lparr>vec_x = vec_x v + vec_x w, vec_y = vec_y v + vec_y w\<rparr>"
  have r2: "a02 ?r2 = 0" "a12 ?r2 = 0"
    by (simp_all only: rotate_deg_twice) (simp_all add: rotate_deg_Identity)
  have sw: "\<lparr>vec_x = vec_x ((transformPoint ?r v)\<lparr>vec_y := vec_y (transformPoint ?r w)\<rparr>)
                    + vec_x ((transformPoint ?r w)\<lparr>vec_y := vec_y (transformPoint ?r v)\<rparr>),
             vec_y = vec_y ((transformPoint ?r v)\<lparr>vec_y := vec_y (transformPoint ?r w)\<rparr>)
                    + vec_y ((transformPoint ?r w)\<lparr>vec_y := vec_y (transformPoint ?r v)\<rparr>)\<rparr>
            = transformPoint ?r ?s"
    by (simp add: transformPoint_def Vector2f_def rotate_deg_Identity algebra_simps)
  have undo: "transformPoint ?r2 (transformPoint ?r ?s) = ?s"
    by (rule rotate_back)
  show ?thesis
    using transformPoint_add [OF r2, of "(transformPoint ?r v)\<lparr>vec_y := vec_y (transformPoint ?r w)\<rparr>"
             "(transformPoint ?r w)\<lparr>vec_y := vec_y (transformPoint ?r v)\<rparr>"]
    unfolding sw undo
    by (simp add: ballResolution_def swapYVelocities_def Let_def)
qed

lemma handleBallCollisions_loop_conserves:
  assumes "handleBallCollisions_loop g self bounds i = Inr (r, g')"
  shows "ballsSum vec_x g' = ballsSum vec_x g \<and> ballsSum vec_y g' = ballsSum vec_y g"
  using assms
proof (induction g self bounds i rule: handleBallCollisions_loop.induct)
  case (1 g self bounds i)
  note run = "1.prems"
  show ?case
  proof (cases "0 \<le> i \<and> i < int (length (objects g))")
    case False
    then have "handleBallCollisions_loop g self bounds i = Inr (False, g)"
      by (subst handleBallCollisions_loop.simps) auto
    with run show ?thesis
      by simp
  next
    case inr: True
    show ?thesis
    proof (cases "thisBall g self")
      case (Inl e)
      with inr have "handleBallCollisions_loop g self bounds i = Inl e"
        by (subst handleBallCollisions_loop.simps) simp
      with run show ?thesis
        by simp
    next
      case (Inr b)
      note tb = this
      then have sl: "self < length (objects g)"
        by (simp add: thisBall_Inr)
      let ?ob = "objects g ! nat i"
      show ?thesis
      proof (cases "case dyn ?ob of BallObj other \<Rightarrow> collisionState other \<noteq> collisionState b | _ \<Rightarrow> False")
        case skip: True
        with inr tb run have "handleBallCollisions_loop g self bounds (i + 1) = Inr (r, g')"
          by (subst (asm) handleBallCollisions_loop.simps) (simp add: Let_def)
        from "1.IH"(1) [OF inr tb refl skip this] show ?thesis .
      next
        case noskip: False
        obtain c boundsCopy where cb: "collision (dyn ?ob) bounds = (c, boundsCopy)"
          by fastforce
        show ?thesis
        proof (cases "c = CHR ''y''")
          case False
          with noskip inr tb run cb have "handleBallCollisions_loop g self bounds (i + 1) = Inr (r, g')"
            by (subst (asm) handleBallCollisions_loop.simps) (simp add: Let_def)
          from "1.IH"(2) [OF inr tb refl noskip cb [symmetric] False this] show ?thesis .
        next
          case True
          with cb obtain other where ot: "dyn ?ob = BallObj other"
            using collision_y_is_ball by blast
          with cb True have "Ball_collision other bounds = (CHR ''y'', boundsCopy)"
            by (simp add: collision_def)
          from Ball_collision_y [OF this]
          have ov: "Vector2f (rect_width boundsCopy) (rect_height boundsCopy) = vel other"
            by (simp add: Vector2f_def)
          have il: "nat i < length (objects g)"
            using inr by linarith
          from ot il have to: "thisBall g (nat i) = Inr other"
            by (simp add: thisBall_Inr)
          obtain v3 o3 where res:
            "ballResolution (getContactAngle (circ_position (circle b)) boundsCopy) (vel b) (vel other) = (v3, o3)"
            by fastforce
          let ?g1 = "putBall g self (b\<lparr>vel := v3\<rparr>)"
          from ball_resolution_sum [where a = "getContactAngle (circ_position (circle b)) boundsCopy"
                 and v = "vel b" and w = "vel other"] res
          have sums: "vec_x v3 + vec_x o3 = vec_x (vel b) + vec_x (vel other)"
                     "vec_y v3 + vec_y o3 = vec_y (vel b) + vec_y (vel other)"
            by simp_all
          show ?thesis
          proof (cases "nat i = self")
            case same: True
            with to tb have ob: "other = b"
              by simp
            with res ballResolution_same [of "getContactAngle (circ_position (circle b)) boundsCopy" "vel b"]
            have vo: "v3 = vel b" "o3 = vel b"
              by auto
            have d1: "dyn (objects ?g1 ! nat i) = BallObj (b\<lparr>vel := v3\<rparr>)"
              using same sl by (simp add: putBall_def)
            have t1: "thisBall ?g1 self = Inr (b\<lparr>vel := v3\<rparr>)"
              using sl by (simp add: thisBall_putBall_same)
            from True noskip inr tb run cb ov res d1 same
            have g': "g' = putBall ?g1 self (setVelocity (b\<lparr>vel := v3\<rparr>) o3)"
              by (subst (asm) handleBallCollisions_loop.simps) (auto simp: Let_def)
            show ?thesis
              unfolding g' ballsSum_putBall [OF t1] ballsSum_putBall [OF tb]
              by (simp add: setVelocity_def vo)
          next
            case diff: False
            have d1: "dyn (objects ?g1 ! nat i) = BallObj other"
              using diff ot by (simp add: putBall_def)
            have t1: "thisBall ?g1 (nat i) = Inr other"
              using diff to by (simp add: thisBall_putBall_other)
            from True noskip inr tb run cb ov res d1
            have g': "g' = putBall ?g1 (nat i) (setVelocity other o3)"
              by (subst (asm) handleBallCollisions_loop.simps) (auto simp: Let_def)
            show ?thesis
              unfolding g' ballsSum_putBall [OF t1] ballsSum_putBall [OF tb]
              using sums by (simp add: setVelocity_def)
          qed
        qed
      qed
    qed
  qed
qed

text \<open>The two balls of the specification's second example, on the small stage.\<close>

lemma two_balls_distance: "euclid (100 - 100) (100 - 108) = 8"
  by (simp add: euclid_def)

lemma two_balls_peer:
  "Ball_collision (FreeBall 100 108 0 3 5 (FloatRect 0 0 10 10)) (FloatRect 95 95 10 10)
     = (CHR ''y'', FloatRect 100 108 0 3)"
  by (simp add: Ball_collision_def FreeBall_def isAttached_def FloatRect_def Vector2f_def euclid_def Let_def)

lemma two_balls_angle: "getContactAngle (Vector2f 100 100) (FloatRect 100 108 0 3) = 0"
  by (simp add: getContactAngle_def Vector2f_def FloatRect_def Let_def)

lemma two_balls_run:
  "handleBallCollisions
     (stage [FreeBall 100 100 0 (- 2) 5 (FloatRect 0 0 10 10), FreeBall 100 108 0 3 5 (FloatRect 0 0 10 10)])
     2 (FloatRect 95 95 10 10)
   = Inr (True, stage [FreeBall 100 100 0 3 5 (FloatRect 0 0 10 10),
                       FreeBall 100 108 0 (- 2) 5 (FloatRect 0 0 10 10)])"
proof -
  let ?b1 = "FreeBall 100 100 0 (- 2) 5 (FloatRect 0 0 10 10)"
  let ?b2 = "FreeBall 100 108 0 3 5 (FloatRect 0 0 10 10)"
  have self: "Ball_collision ?b1 (FloatRect 95 95 10 10) = (CHR ''n'', FloatRect 95 95 10 10)"
    by (simp add: Ball_collision_def FreeBall_def isAttached_def FloatRect_def Vector2f_def euclid_def Let_def)
  have res: "ballResolution 0 (Vector2f 0 (- 2)) (Vector2f 0 3) = (Vector2f 0 3, Vector2f 0 (- 2))"
    by (simp add: ballResolution_def swapYVelocities_def rotate_deg_def combine_def Identity_def
          transformPoint_def Vector2f_def Let_def)
  have pos: "circ_position (circle ?b1) = Vector2f 100 100" "vel ?b1 = Vector2f 0 (- 2)"
    "collisionState ?b1 = False" "collisionState ?b2 = False"
    by (simp_all add: FreeBall_def)
  have upd: "?b1\<lparr>vel := Vector2f 0 3\<rparr> = FreeBall 100 100 0 3 5 (FloatRect 0 0 10 10)"
    "setVelocity ?b2 (Vector2f 0 (- 2)) = FreeBall 100 108 0 (- 2) 5 (FloatRect 0 0 10 10)"
    by (simp_all add: FreeBall_def setVelocity_def)
  have step2: "handleBallCollisions_loop (stage [?b1, ?b2]) 2 (FloatRect 95 95 10 10) 2
                 = handleBallCollisions_loop (stage [?b1, ?b2]) 2 (FloatRect 95 95 10 10) 3"
    by (subst handleBallCollisions_loop.simps)
       (simp add: stage_simps thisBall_stage newObject_def collision_def self)
  have step3: "handleBallCollisions_loop (stage [?b1, ?b2]) 2 (FloatRect 95 95 10 10) 3
                 = Inr (True, stage [FreeBall 100 100 0 3 5 (FloatRect 0 0 10 10),
                                     FreeBall 100 108 0 (- 2) 5 (FloatRect 0 0 10 10)])"
    by (subst handleBallCollisions_loop.simps)
       (simp add: stage_simps thisBall_stage newObject_def collision_def two_balls_peer pos
          two_balls_angle res upd putBall_stage FloatRect_sel Let_def)
  show ?thesis
    by (simp add: handleBallCollisions_def stage_simps step2 step3)
qed

section \<open>Properties of the barrier\<close>

text \<open>
  C5 (as amended). For every box passed to \<^verbatim>\<open>Barrier::collision\<close>: if it intersects the left
  or the right wall the result is Horizontal; if it intersects the top wall and neither
  side wall the result is Vertical; if it intersects no wall the result is None. In
  every case the box is returned as it was passed.
\<close>

theorem Barrier_collision_outcome:
  "(intersects (bar_left w) bb \<or> intersects (bar_right w) bb
      \<longrightarrow> Barrier_collision w bb = (CHR ''h'', bb))
   \<and> (\<not> intersects (bar_left w) bb \<and> \<not> intersects (bar_right w) bb \<and> intersects (bar_top w) bb
      \<longrightarrow> Barrier_collision w bb = (CHR ''v'', bb))
   \<and> (\<not> intersects (bar_left w) bb \<and> \<not> intersects (bar_right w) bb \<and> \<not> intersects (bar_top w) bb
      \<longrightarrow> Barrier_collision w bb = (CHR ''n'', bb))"
  by (simp add: Barrier_collision_def)

text \<open>
  A barrier of thickness 10 in an 800 by 600 window (buffer 5, banner 50) and three boxes:
  one on the left wall, one on the top wall only, one on no wall.
\<close>

theorem Barrier_collision_outcome_witness:
  "Barrier_collision (Barrier 50 800 600 10 5) (FloatRect 10 300 12 12) = (CHR ''h'', FloatRect 10 300 12 12)
   \<and> Barrier_collision (Barrier 50 800 600 10 5) (FloatRect 400 60 12 12) = (CHR ''v'', FloatRect 400 60 12 12)
   \<and> Barrier_collision (Barrier 50 800 600 10 5) (FloatRect 400 300 12 12) = (CHR ''n'', FloatRect 400 300 12 12)"
  using Barrier_collision_outcome [of "Barrier 50 800 600 10 5" "FloatRect 10 300 12 12"]
        Barrier_collision_outcome [of "Barrier 50 800 600 10 5" "FloatRect 400 60 12 12"]
        Barrier_collision_outcome [of "Barrier 50 800 600 10 5" "FloatRect 400 300 12 12"]
  by (simp add: Barrier_def intersects_FloatRect)

text \<open>
  C5 as stated fails where the walls meet: the left and the top wall share the top left
  corner of the frame, and a box there intersects the top wall yet the result is
  Horizontal, because the side walls are tested first.
\<close>

theorem Barrier_collision_top_counterexample:
  "intersects (bar_top (Barrier 50 800 600 10 5)) (FloatRect 10 58 12 12)
   \<and> Barrier_collision (Barrier 50 800 600 10 5) (FloatRect 10 58 12 12) = (CHR ''h'', FloatRect 10 58 12 12)"
  by (simp add: Barrier_def Barrier_collision_def intersects_FloatRect)

section \<open>Properties of the brick\<close>

text \<open>
  C3. For every circle whose box overlaps the brick's box, \<^verbatim>\<open>Brick::collision\<close> returns one
  of Vertical, Horizontal, Corner, None, decided in this order: Vertical if the top or
  bottom midline point lies inside the brick, else Horizontal if the left or right
  midline point lies inside, else Corner if a corner of the brick is nearer to the
  circle's centre than the radius, that corner's coordinates written into the left and
  top fields of the box, else None.
\<close>

theorem Brick_collision_dispatch:
  assumes "intersects (brick_rectangle k) circ"
  shows "Brick_collision k circ = Brick_collision_spec k circ
         \<and> fst (Brick_collision k circ) \<in> {CHR ''v'', CHR ''h'', CHR ''c'', CHR ''n''}"
  using assms
  by (simp add: Brick_collision_def Brick_collision_spec_def corners_def Let_def Vector2f_def)

text \<open>
  A brick at (100, 100) of size 40 by 20 and a circle of radius 6 centred at (97, 96):
  the boxes overlap, no midline point is inside the brick, and the top left corner is at
  distance 5.
\<close>

theorem Brick_collision_dispatch_witness:
  "intersects (brick_rectangle (Brick 100 100 40 20 (CHR ''b''))) (FloatRect 91 90 12 12)
   \<and> Brick_collision (Brick 100 100 40 20 (CHR ''b'')) (FloatRect 91 90 12 12)
       = (CHR ''c'', FloatRect 100 100 12 12)"
proof -
  have i: "intersects (brick_rectangle (Brick 100 100 40 20 (CHR ''b''))) (FloatRect 91 90 12 12)"
    by (simp add: Brick_def intersects_FloatRect)
  have e: "euclid (- 3) (- 4) = 5"
    using real_sqrt_abs [of 5] by (simp add: euclid_def)
  have "Brick_collision_spec (Brick 100 100 40 20 (CHR ''b'')) (FloatRect 91 90 12 12)
          = (CHR ''c'', FloatRect 100 100 12 12)"
    by (simp add: Brick_collision_spec_def Brick_def corners_def Let_def contains_FloatRect Vector2f_def)
       (simp add: FloatRect_def e)
  with i Brick_collision_dispatch [OF i] show ?thesis by simp
qed

section \<open>Properties of the contact angle\<close>

text \<open>
  In single precision the literals \<^verbatim>\<open>1.570796327f\<close> and \<^verbatim>\<open>57.295779513f\<close> are the numbers
  13176795 / 2^23 and 15019745 / 2^18. Their exact product is nearer to 90 than half the
  spacing 2^-17 of single-precision numbers between 64 and 128, so the rounded product
  is 90 itself: the program's tangential angle is exactly 90 degrees, as it is in the
  real-number reading.
\<close>

lemma tangential_angle_single_precision:
  "\<bar>(13176795 / 2 ^ 23) * (15019745 / 2 ^ 18) - (90 :: real)\<bar> < 1 / 2 ^ 18"
  by (simp add: abs_if)

text \<open>
  C6. For every ball centre and contact point, the contact angle is the arctangent of
  the difference in x over the difference in y, converted to degrees; when the
  difference in y is zero it is exactly 90 degrees. The angle lies above -90 and is at
  most 90 degrees, and it is 90 in that case only.
\<close>

theorem getContactAngle_degrees:
  "getContactAngle object1 object2 =
     (if vec_y object1 - rect_top object2 = 0 then 90
      else arctan ((vec_x object1 - rect_left object2) / (vec_y object1 - rect_top object2)) * (180 / pi))
   \<and> - 90 < getContactAngle object1 object2
   \<and> getContactAngle object1 object2 \<le> 90
   \<and> (getContactAngle object1 object2 = 90) = (vec_y object1 - rect_top object2 = 0)"
proof -
  let ?dy = "vec_y object1 - rect_top object2"
  let ?t = "arctan ((vec_x object1 - rect_left object2) / ?dy)"
  have val: "getContactAngle object1 object2 = (if ?dy = 0 then 90 else ?t * (180 / pi))"
    by (simp add: getContactAngle_def Let_def)
  have lo: "- 90 < ?t * (180 / pi)"
  proof -
    have "- (pi / 2) * (180 / pi) < ?t * (180 / pi)"
      using arctan_lbound [of "(vec_x object1 - rect_left object2) / ?dy"]
      by (intro mult_strict_right_mono) simp_all
    then show ?thesis by simp
  qed
  have hi: "?t * (180 / pi) < 90"
  proof -
    have "?t * (180 / pi) < pi / 2 * (180 / pi)"
      using arctan_ubound [of "(vec_x object1 - rect_left object2) / ?dy"]
      by (intro mult_strict_right_mono) simp_all
    then show ?thesis by simp
  qed
  from val lo hi show ?thesis
    by auto
qed

section \<open>Properties of ball contacts\<close>

text \<open>
  C9. For every query of a ball's \<^verbatim>\<open>collision\<close> with a box whose centre is no farther
  than a quarter of the radius from the ball's centre, the result is None and the box
  is returned as it was passed. The ball's own bounds are such a box, at distance zero:
  when the loop of \<^verbatim>\<open>handleBallCollisions\<close> reaches the slot of the running ball itself,
  with a box centred at the ball's position, it goes on to the next slot and resolves
  nothing.
\<close>

theorem Ball_collision_epsilon_guard:
  "(euclid (vec_x (circ_position (circle b)) - (rect_left bb + rect_width bb / 2))
           (vec_y (circ_position (circle b)) - (rect_top bb + rect_height bb / 2))
      \<le> circ_radius (circle b) / 4
    \<longrightarrow> Ball_collision b bb = (CHR ''n'', bb))
   \<and> (thisBall g self = Inr b \<and> 0 \<le> circ_radius (circle b)
      \<and> rect_left bb + rect_width bb / 2 = vec_x (circ_position (circle b))
      \<and> rect_top bb + rect_height bb / 2 = vec_y (circ_position (circle b))
    \<longrightarrow> handleBallCollisions_loop g self bb (int self)
          = handleBallCollisions_loop g self bb (int self + 1))"
proof (intro conjI impI)
  assume "euclid (vec_x (circ_position (circle b)) - (rect_left bb + rect_width bb / 2))
            (vec_y (circ_position (circle b)) - (rect_top bb + rect_height bb / 2))
          \<le> circ_radius (circle b) / 4"
  then show "Ball_collision b bb = (CHR ''n'', bb)"
    by (simp add: Ball_collision_def Let_def Vector2f_def)
next
  assume a: "thisBall g self = Inr b \<and> 0 \<le> circ_radius (circle b)
      \<and> rect_left bb + rect_width bb / 2 = vec_x (circ_position (circle b))
      \<and> rect_top bb + rect_height bb / 2 = vec_y (circ_position (circle b))"
  then have in_range: "self < length (objects g)" and here: "dyn (objects g ! self) = BallObj b"
    by (simp_all add: thisBall_Inr)
  from a have own: "Ball_collision b bb = (CHR ''n'', bb)"
    by (simp add: Ball_collision_def Let_def Vector2f_def euclid_def)
  show "handleBallCollisions_loop g self bb (int self) = handleBallCollisions_loop g self bb (int self + 1)"
    using a in_range here own
    by (subst handleBallCollisions_loop.simps) (simp add: Let_def collision_def)
qed

text \<open>A free ball of radius 5 in mid field, in slot 2 of the small stage, with its own bounds.\<close>

theorem Ball_collision_epsilon_guard_witness:
  "getGlobalBounds (circle (FreeBall 400 300 0 (- 2) 5 (FloatRect 0 0 10 10))) = FloatRect 395 295 10 10
   \<and> thisBall (stage [FreeBall 400 300 0 (- 2) 5 (FloatRect 0 0 10 10)]) 2
        = Inr (FreeBall 400 300 0 (- 2) 5 (FloatRect 0 0 10 10))
   \<and> \<not> isAttached (FreeBall 400 300 0 (- 2) 5 (FloatRect 0 0 10 10))
   \<and> Ball_collision (FreeBall 400 300 0 (- 2) 5 (FloatRect 0 0 10 10)) (FloatRect 395 295 10 10)
       = (CHR ''n'', FloatRect 395 295 10 10)
   \<and> handleBallCollisions_loop (stage [FreeBall 400 300 0 (- 2) 5 (FloatRect 0 0 10 10)]) 2
         (FloatRect 395 295 10 10) 2
       = handleBallCollisions_loop (stage [FreeBall 400 300 0 (- 2) 5 (FloatRect 0 0 10 10)]) 2
         (FloatRect 395 295 10 10) 3"
proof -
  let ?b = "FreeBall 400 300 0 (- 2) 5 (FloatRect 0 0 10 10)"
  let ?bb = "FloatRect 395 295 10 10"
  have d: "euclid (vec_x (circ_position (circle ?b)) - (rect_left ?bb + rect_width ?bb / 2))
                  (vec_y (circ_position (circle ?b)) - (rect_top ?bb + rect_height ?bb / 2))
             \<le> circ_radius (circle ?b) / 4"
    by (simp add: FreeBall_def FloatRect_def Vector2f_def euclid_def)
  have c: "thisBall (stage [?b]) 2 = Inr ?b \<and> 0 \<le> circ_radius (circle ?b)
      \<and> rect_left ?bb + rect_width ?bb / 2 = vec_x (circ_position (circle ?b))
      \<and> rect_top ?bb + rect_height ?bb / 2 = vec_y (circ_position (circle ?b))"
    by (simp add: thisBall_stage FreeBall_def FloatRect_def Vector2f_def)
  have f: "\<not> isAttached ?b"
    by (simp add: FreeBall_def isAttached_def)
  from Ball_collision_epsilon_guard [of ?b ?bb "stage [?b]" 2] d c f
  show ?thesis
    by (simp add: mid_field_bounds thisBall_stage)
qed

text \<open>
  C2. Two free balls of radius 5 at (100, 100) and (100, 108) with velocities (0, -2) and
  (0, 3): the first ball's bounds are the box (95, 95, 10, 10); the centres are 8 apart;
  the second ball's \<^verbatim>\<open>collision\<close> with these bounds reports contact and writes its
  position and velocity into the box; the contact angle is 0 degrees; and
  \<^verbatim>\<open>handleBallCollisions\<close> of the first ball returns true with the y velocities swapped:
  the first ball's is 3 and the second's, written into that ball, is -2.
\<close>

theorem scenario_two_balls:
  "getGlobalBounds (circle (FreeBall 100 100 0 (- 2) 5 (FloatRect 0 0 10 10))) = FloatRect 95 95 10 10
   \<and> euclid (100 - 100) (100 - 108) = 8
   \<and> Ball_collision (FreeBall 100 108 0 3 5 (FloatRect 0 0 10 10)) (FloatRect 95 95 10 10)
       = (CHR ''y'', FloatRect 100 108 0 3)
   \<and> getContactAngle (Vector2f 100 100) (FloatRect 100 108 0 3) = 0
   \<and> handleBallCollisions
         (stage [FreeBall 100 100 0 (- 2) 5 (FloatRect 0 0 10 10), FreeBall 100 108 0 3 5 (FloatRect 0 0 10 10)])
         2 (FloatRect 95 95 10 10)
       = Inr (True, stage [FreeBall 100 100 0 3 5 (FloatRect 0 0 10 10),
                           FreeBall 100 108 0 (- 2) 5 (FloatRect 0 0 10 10)])"
proof -
  have "getGlobalBounds (circle (FreeBall 100 100 0 (- 2) 5 (FloatRect 0 0 10 10))) = FloatRect 95 95 10 10"
    by (simp add: getGlobalBounds_def FreeBall_def FloatRect_def Vector2f_def)
  with two_balls_distance two_balls_peer two_balls_angle two_balls_run show ?thesis
    by simp
qed

text \<open>
  C10. For every response to a ball contact: the sum of the two y components in the
  contact frame is the same before and after the swap; after both velocities are
  rotated back by the same transform, the sum of the two y components in world
  coordinates equals the sum before the response (and so does the sum of the x
  components); and whatever \<^verbatim>\<open>handleBallCollisions\<close> resolves, the total velocity of the
  balls of the game is the same after it as before.
\<close>

theorem ball_contact_conserves_y:
  "(case swapYVelocities a b of
      (a', b') \<Rightarrow> vec_y a' + vec_y b' = vec_y a + vec_y b \<and> vec_x a' = vec_x a \<and> vec_x b' = vec_x b)
   \<and> (case ballResolution contactAngle v otherVel of
        (v', otherVel') \<Rightarrow>
          vec_y v' + vec_y otherVel' = vec_y v + vec_y otherVel
          \<and> vec_x v' + vec_x otherVel' = vec_x v + vec_x otherVel)
   \<and> (handleBallCollisions g self bounds = Inr (r, g')
        \<longrightarrow> ballsSum vec_y g' = ballsSum vec_y g \<and> ballsSum vec_x g' = ballsSum vec_x g)"
proof -
  have swapped: "case swapYVelocities a b of
      (a', b') \<Rightarrow> vec_y a' + vec_y b' = vec_y a + vec_y b \<and> vec_x a' = vec_x a \<and> vec_x b' = vec_x b"
    by (simp add: swapYVelocities_def Let_def)
  have world: "case ballResolution contactAngle v otherVel of
        (v', otherVel') \<Rightarrow>
          vec_y v' + vec_y otherVel' = vec_y v + vec_y otherVel
          \<and> vec_x v' + vec_x otherVel' = vec_x v + vec_x otherVel"
    using ball_resolution_sum [where a = contactAngle and v = v and w = otherVel]
    by (simp add: case_prod_beta)
  have game: "handleBallCollisions g self bounds = Inr (r, g')
        \<longrightarrow> ballsSum vec_y g' = ballsSum vec_y g \<and> ballsSum vec_x g' = ballsSum vec_x g"
    using handleBallCollisions_loop_conserves [of g self bounds _ r g']
    by (simp add: handleBallCollisions_def)
  from swapped world game show ?thesis
    by simp
qed

text \<open>
  The two balls of the second example: before the contact the y velocities are -2 and 3,
  after it 3 and -2, and the total is 1 both times.
\<close>

theorem ball_contact_conserves_y_witness:
  "handleBallCollisions
     (stage [FreeBall 100 100 0 (- 2) 5 (FloatRect 0 0 10 10), FreeBall 100 108 0 3 5 (FloatRect 0 0 10 10)])
     2 (FloatRect 95 95 10 10)
   = Inr (True, stage [FreeBall 100 100 0 3 5 (FloatRect 0 0 10 10),
                       FreeBall 100 108 0 (- 2) 5 (FloatRect 0 0 10 10)])
   \<and> ballsSum vec_y (stage [FreeBall 100 100 0 (- 2) 5 (FloatRect 0 0 10 10),
                            FreeBall 100 108 0 3 5 (FloatRect 0 0 10 10)]) = 1
   \<and> ballsSum vec_y (stage [FreeBall 100 100 0 3 5 (FloatRect 0 0 10 10),
                            FreeBall 100 108 0 (- 2) 5 (FloatRect 0 0 10 10)]) = 1"
proof -
  have before: "ballsSum vec_y (stage [FreeBall 100 100 0 (- 2) 5 (FloatRect 0 0 10 10),
                                      FreeBall 100 108 0 3 5 (FloatRect 0 0 10 10)]) = 1"
    by (simp add: ballsSum_def stage_def newObject_def FreeBall_def Vector2f_def)
  from ball_contact_conserves_y
         [where g = "stage [FreeBall 100 100 0 (- 2) 5 (FloatRect 0 0 10 10),
                            FreeBall 100 108 0 3 5 (FloatRect 0 0 10 10)]"
            and self = 2 and bounds = "FloatRect 95 95 10 10" and r = True
            and g' = "stage [FreeBall 100 100 0 3 5 (FloatRect 0 0 10 10),
                             FreeBall 100 108 0 (- 2) 5 (FloatRect 0 0 10 10)]"]
       two_balls_run before
  show ?thesis
    by simp
qed

section \<open>Properties of the frame of a ball\<close>

text \<open>
  C8. For every ball whose bounding box has its top edge beyond the field height when
  \<^verbatim>\<open>move\<close> starts, the ball is marked for deletion and \<^verbatim>\<open>move\<close> returns: the ball's
  position, velocity, parity flag and attachment are unchanged, and so is every other
  object of the game.
\<close>

theorem move_out_of_field:
  assumes "thisBall g self = Inr b"
    and "rect_top (getGlobalBounds (circle b)) > real (snd (windowSize g))"
  shows "move BALL_MAX_SPEED g self
           = Inr (g\<lparr>objects := (objects g)[self := \<lparr>obj_delete = True, dyn = BallObj b\<rparr>]\<rparr>)"
proof -
  from assms(1) have d: "dyn (objects g ! self) = BallObj b"
    by (simp add: thisBall_Inr)
  have "(objects g ! self)\<lparr>obj_delete := True\<rparr> = \<lparr>obj_delete = True, dyn = BallObj b\<rparr>"
    using d by (cases "objects g ! self") simp
  with assms show ?thesis
    by (simp add: move_def markDeleted_def Let_def)
qed

text \<open>A ball of radius 5 at (400, 700) in the 800 by 600 window.\<close>

theorem move_out_of_field_witness:
  "thisBall (stage [FreeBall 400 700 1 3 5 (FloatRect 0 0 10 10)]) 2 = Inr (FreeBall 400 700 1 3 5 (FloatRect 0 0 10 10))
   \<and> move 10 (stage [FreeBall 400 700 1 3 5 (FloatRect 0 0 10 10)]) 2
       = Inr ((stage [FreeBall 400 700 1 3 5 (FloatRect 0 0 10 10)])
                \<lparr>objects := (objects (stage [FreeBall 400 700 1 3 5 (FloatRect 0 0 10 10)]))
                   [2 := \<lparr>obj_delete = True, dyn = BallObj (FreeBall 400 700 1 3 5 (FloatRect 0 0 10 10))\<rparr>]\<rparr>)"
proof -
  have t: "thisBall (stage [FreeBall 400 700 1 3 5 (FloatRect 0 0 10 10)]) 2 = Inr (FreeBall 400 700 1 3 5 (FloatRect 0 0 10 10))"
    by (simp add: thisBall_def nth_object_def stage_def newObject_def)
  have o: "rect_top (getGlobalBounds (circle (FreeBall 400 700 1 3 5 (FloatRect 0 0 10 10))))
             > real (snd (windowSize (stage [FreeBall 400 700 1 3 5 (FloatRect 0 0 10 10)])))"
    by (simp add: getGlobalBounds_def FreeBall_def FloatRect_def Vector2f_def stage_def)
  from t move_out_of_field [OF t o, of 10] show ?thesis by simp
qed

text \<open>
  C4 (as amended). For every attached ball whose top edge is not beyond the field height,
  \<^verbatim>\<open>move\<close> runs no collision check (no other object changes), flips the parity flag,
  applies the speed clamp to the stored velocity and leaves the ball at the anchor
  displaced by that velocity: at (anchor.x + v.x, anchor.y - radius + v.y). With the zero
  velocity that the attached constructor stores, the position is
  (anchor.x, anchor.y - radius).
\<close>

theorem move_attached:
  assumes "thisBall g self = Inr b"
    and "attachedPos b = Some p"
    and "deref g p = Inr anchor"
    and "\<not> rect_top (getGlobalBounds (circle b)) > real (snd (windowSize g))"
  shows "let v = vel (slowDown BALL_MAX_SPEED b);
             b' = b\<lparr>circle := setPosition (circle b) (vec_x anchor + vec_x v)
                                  (vec_y anchor - circ_radius (circle b) + vec_y v),
                     vel := v,
                     collisionState := \<not> collisionState b\<rparr>
         in move BALL_MAX_SPEED g self = Inr (putBall g self b')
            \<and> (vel b = Vector2f 0 0
                 \<longrightarrow> circ_position (circle b') = Vector2f (vec_x anchor) (vec_y anchor - circ_radius (circle b)))"
proof (cases b)
  case (fields c v a s)
  with assms show ?thesis
    by (simp add: move_def collisionChecks_def afterChecks_def snapToAnchor_def isAttached_def
          slowDown_def shape_move_def setPosition_def Let_def Vector2f_def)
qed

text \<open>The ball the attached constructor builds, on the small stage: the anchor is (400, 560).\<close>

theorem move_attached_witness:
  "move 10 (stage [AttachedBall 5 (FloatRect 0 0 10 10)]) 2
     = Inr (stage [(AttachedBall 5 (FloatRect 0 0 10 10))
                     \<lparr>circle := setPosition (circle (AttachedBall 5 (FloatRect 0 0 10 10))) 400 555,
                      collisionState := True\<rparr>])"
proof -
  let ?b = "AttachedBall 5 (FloatRect 0 0 10 10)"
  have a: "attachedPos ?b = Some PaddlePos"
    by (simp add: AttachedBall_def)
  have t: "\<not> rect_top (getGlobalBounds (circle ?b)) > real (snd (windowSize (stage [?b])))"
    by (simp add: stage_simps getGlobalBounds_def AttachedBall_def FloatRect_def Vector2f_def)
  from move_attached [OF thisBall_stage(1) a deref_stage t, of 10]
  show ?thesis
    by (simp add: Let_def putBall_stage slowDown_def AttachedBall_def Vector2f_def setPosition_def)
qed

text \<open>
  C4 as stated fails for a stored velocity other than zero: the same attached ball with
  velocity (1, 0) ends the frame at (401, 555), not at the anchor's (400, 555).
\<close>

theorem move_attached_counterexample:
  "attachedPos ((AttachedBall 5 (FloatRect 0 0 10 10))\<lparr>vel := Vector2f 1 0\<rparr>) = Some PaddlePos
   \<and> deref (stage [(AttachedBall 5 (FloatRect 0 0 10 10))\<lparr>vel := Vector2f 1 0\<rparr>]) PaddlePos = Inr (Vector2f 400 560)
   \<and> move 10 (stage [(AttachedBall 5 (FloatRect 0 0 10 10))\<lparr>vel := Vector2f 1 0\<rparr>]) 2
     = Inr (stage [(AttachedBall 5 (FloatRect 0 0 10 10))
                     \<lparr>circle := setPosition (circle (AttachedBall 5 (FloatRect 0 0 10 10))) 401 555,
                      vel := Vector2f 1 0,
                      collisionState := True\<rparr>])"
  by (simp add: move_def collisionChecks_def afterChecks_def snapToAnchor_def isAttached_def
        slowDown_def shape_move_def setPosition_def Let_def thisBall_stage deref_stage putBall_stage
        stage_simps getGlobalBounds_def AttachedBall_def Vector2f_def FloatRect_def)

text \<open>
  C7 (as amended). For every ball of a well-formed game whose top edge is not beyond the
  field height, \<^verbatim>\<open>move\<close> returns and flips the parity flag once; the collision checks run
  first and see the flag as it was, the flip is part of what follows them. (A ball
  beyond the field height is marked for deletion and its flag stays.)
\<close>

theorem move_flips_parity:
  assumes "wellFormed g"
    and "thisBall g self = Inr b"
    and "\<not> rect_top (getGlobalBounds (circle b)) > real (snd (windowSize g))"
  shows "\<exists>r g1 b1 g' b'.
           collisionChecks g self (getGlobalBounds (circle b)) = Inr (r, g1)
           \<and> thisBall g1 self = Inr b1
           \<and> collisionState b1 = collisionState b
           \<and> afterChecks BALL_MAX_SPEED g1 self r = Inr g'
           \<and> move BALL_MAX_SPEED g self = Inr g'
           \<and> thisBall g' self = Inr b'
           \<and> collisionState b' = (\<not> collisionState b)"
proof -
  from collisionChecks_frame [OF assms(2) assms(1), of "getGlobalBounds (circle b)"]
  obtain r g1 b1 where cc: "collisionChecks g self (getGlobalBounds (circle b)) = Inr (r, g1)"
    and t1: "thisBall g1 self = Inr b1"
    and f1: "attachedPos b1 = attachedPos b" "collisionState b1 = collisionState b"
    and at: "isAttached b \<longrightarrow> g1 = g"
    by blast
  have "\<exists>a. deref g1 p = Inr a" if "attachedPos b1 = Some p" for p
  proof -
    from that f1 have "isAttached b" by (simp add: isAttached_def)
    with at have "g1 = g" by simp
    with deref_wellFormed [OF assms(1)] show ?thesis by simp
  qed
  from afterChecks_result [OF t1 this, of BALL_MAX_SPEED r]
  obtain g' b' where ac: "afterChecks BALL_MAX_SPEED g1 self r = Inr g'"
    and t2: "thisBall g' self = Inr b'"
    and f2: "collisionState b' = (\<not> collisionState b1)"
    by blast
  from assms(2,3) cc ac have "move BALL_MAX_SPEED g self = Inr g'"
    by (simp add: move_def Let_def)
  with cc t1 f1 ac t2 f2 show ?thesis
    by auto
qed

text \<open>A free ball in the middle of the small stage, away from every other object.\<close>

theorem move_flips_parity_witness:
  "wellFormed (stage [FreeBall 400 300 1 3 5 (FloatRect 0 0 10 10)])
   \<and> thisBall (stage [FreeBall 400 300 1 3 5 (FloatRect 0 0 10 10)]) 2
       = Inr (FreeBall 400 300 1 3 5 (FloatRect 0 0 10 10))
   \<and> collisionState (FreeBall 400 300 1 3 5 (FloatRect 0 0 10 10)) = False
   \<and> (\<exists>g' b'. move 10 (stage [FreeBall 400 300 1 3 5 (FloatRect 0 0 10 10)]) 2 = Inr g'
         \<and> thisBall g' 2 = Inr b' \<and> collisionState b' = True)"
proof -
  let ?b = "FreeBall 400 300 1 3 5 (FloatRect 0 0 10 10)"
  have f: "\<not> rect_top (getGlobalBounds (circle ?b)) > real (snd (windowSize (stage [?b])))"
    by (simp add: mid_field_bounds stage_simps FloatRect_sel)
  have c: "collisionState ?b = False"
    by (simp add: FreeBall_def)
  from move_flips_parity [OF wellFormed_stage thisBall_stage(1) f, of 10] c
  show ?thesis
    by (auto simp: wellFormed_stage thisBall_stage)
qed

text \<open>
  C7 as stated fails for a ball that has left the field: \<^verbatim>\<open>move\<close> returns before the
  flip, and the ball is the one it was.
\<close>

theorem move_flips_parity_counterexample:
  "thisBall (stage [FreeBall 400 700 1 3 5 (FloatRect 0 0 10 10)]) 2
       = Inr (FreeBall 400 700 1 3 5 (FloatRect 0 0 10 10))
   \<and> move 10 (stage [FreeBall 400 700 1 3 5 (FloatRect 0 0 10 10)]) 2
       = Inr (markDeleted (stage [FreeBall 400 700 1 3 5 (FloatRect 0 0 10 10)]) 2)
   \<and> thisBall (markDeleted (stage [FreeBall 400 700 1 3 5 (FloatRect 0 0 10 10)]) 2) 2
       = Inr (FreeBall 400 700 1 3 5 (FloatRect 0 0 10 10))"
  by (simp add: move_def thisBall_stage thisBall_markDeleted stage_simps Let_def)
     (simp add: getGlobalBounds_def FreeBall_def FloatRect_def Vector2f_def)

text \<open>
  C1 (as amended). For every ball of a well-formed game whose top edge is not beyond the
  field height: \<^verbatim>\<open>move\<close> returns, and if after the frame's collision checks the x or the y
  component of the velocity is greater than the maximum speed, both components are
  multiplied by 0.99, so that a component other than zero gets strictly smaller in
  magnitude and a zero component stays zero. For an attached ball and for a frame that
  handles no collision, the velocity after the checks is the velocity the ball entered
  the frame with.
\<close>

theorem move_slows_fast_ball:
  assumes "wellFormed g"
    and "thisBall g self = Inr b"
    and "\<not> rect_top (getGlobalBounds (circle b)) > real (snd (windowSize g))"
  shows "\<exists>r g1 b1 g' b'.
           collisionChecks g self (getGlobalBounds (circle b)) = Inr (r, g1)
           \<and> thisBall g1 self = Inr b1
           \<and> (isAttached b \<or> \<not> r \<longrightarrow> vel b1 = vel b)
           \<and> move BALL_MAX_SPEED g self = Inr g'
           \<and> thisBall g' self = Inr b'
           \<and> (vec_x (vel b1) > BALL_MAX_SPEED \<or> vec_y (vel b1) > BALL_MAX_SPEED \<longrightarrow>
                vec_x (vel b') = vec_x (vel b1) * 0.99
                \<and> vec_y (vel b') = vec_y (vel b1) * 0.99
                \<and> (vec_x (vel b1) \<noteq> 0 \<longrightarrow> \<bar>vec_x (vel b')\<bar> < \<bar>vec_x (vel b1)\<bar>)
                \<and> (vec_y (vel b1) \<noteq> 0 \<longrightarrow> \<bar>vec_y (vel b')\<bar> < \<bar>vec_y (vel b1)\<bar>)
                \<and> (vec_x (vel b1) = 0 \<longrightarrow> vec_x (vel b') = 0)
                \<and> (vec_y (vel b1) = 0 \<longrightarrow> vec_y (vel b') = 0))"
proof -
  from collisionChecks_frame [OF assms(2) assms(1), of "getGlobalBounds (circle b)"]
  obtain r g1 b1 where cc: "collisionChecks g self (getGlobalBounds (circle b)) = Inr (r, g1)"
    and t1: "thisBall g1 self = Inr b1"
    and f1: "attachedPos b1 = attachedPos b"
    and nr: "\<not> r \<longrightarrow> b1 = b"
    and at: "isAttached b \<longrightarrow> g1 = g"
    by blast
  have same: "isAttached b \<or> \<not> r \<longrightarrow> vel b1 = vel b"
    using nr at t1 assms(2) by auto
  have "\<exists>a. deref g1 p = Inr a" if "attachedPos b1 = Some p" for p
  proof -
    from that f1 have "isAttached b" by (simp add: isAttached_def)
    with at have "g1 = g" by simp
    with deref_wellFormed [OF assms(1)] show ?thesis by simp
  qed
  from afterChecks_result [OF t1 this, of BALL_MAX_SPEED r]
  obtain g' b' where ac: "afterChecks BALL_MAX_SPEED g1 self r = Inr g'"
    and t2: "thisBall g' self = Inr b'"
    and v2: "vel b' = vel (slowDown BALL_MAX_SPEED b1)"
    by blast
  from assms(2,3) cc ac have mv: "move BALL_MAX_SPEED g self = Inr g'"
    by (simp add: move_def Let_def)
  have damp: "vec_x (vel b1) > BALL_MAX_SPEED \<or> vec_y (vel b1) > BALL_MAX_SPEED \<longrightarrow>
                vec_x (vel b') = vec_x (vel b1) * 0.99
                \<and> vec_y (vel b') = vec_y (vel b1) * 0.99
                \<and> (vec_x (vel b1) \<noteq> 0 \<longrightarrow> \<bar>vec_x (vel b')\<bar> < \<bar>vec_x (vel b1)\<bar>)
                \<and> (vec_y (vel b1) \<noteq> 0 \<longrightarrow> \<bar>vec_y (vel b')\<bar> < \<bar>vec_y (vel b1)\<bar>)
                \<and> (vec_x (vel b1) = 0 \<longrightarrow> vec_x (vel b') = 0)
                \<and> (vec_y (vel b1) = 0 \<longrightarrow> vec_y (vel b') = 0)"
    unfolding v2 by (auto simp: slowDown_def abs_if)
  from cc t1 same mv t2 damp show ?thesis
    by blast
qed

text \<open>A free ball in mid field with velocity (11, 2) and maximum speed 10.\<close>

theorem move_slows_fast_ball_witness:
  "wellFormed (stage [FreeBall 400 300 11 2 5 (FloatRect 0 0 10 10)])
   \<and> thisBall (stage [FreeBall 400 300 11 2 5 (FloatRect 0 0 10 10)]) 2
       = Inr (FreeBall 400 300 11 2 5 (FloatRect 0 0 10 10))
   \<and> (\<exists>g' b'. move 10 (stage [FreeBall 400 300 11 2 5 (FloatRect 0 0 10 10)]) 2 = Inr g'
         \<and> thisBall g' 2 = Inr b'
         \<and> vec_x (vel b') = 1089 / 100 \<and> vec_y (vel b') = 198 / 100)"
proof -
  let ?b = "FreeBall 400 300 11 2 5 (FloatRect 0 0 10 10)"
  have f: "\<not> rect_top (getGlobalBounds (circle ?b)) > real (snd (windowSize (stage [?b])))"
    by (simp add: mid_field_bounds stage_simps FloatRect_sel)
  have v: "vel ?b = Vector2f 11 2"
    by (simp add: FreeBall_def)
  from move_slows_fast_ball [OF wellFormed_stage thisBall_stage(1) f, of 10]
  show ?thesis
    by (auto simp: mid_field_bounds free_flight wellFormed_stage thisBall_stage v Vector2f_sel)
qed

text \<open>
  C1 as stated fails for a component that is zero: a ball falling straight down with
  velocity (0, 11) and maximum speed 10 leaves the frame with velocity (0, 10.89), and
  its x component is not smaller in magnitude than before.
\<close>

theorem move_slows_fast_ball_counterexample:
  "vec_y (vel (FreeBall 400 300 0 11 5 (FloatRect 0 0 10 10))) > 10
   \<and> move 10 (stage [FreeBall 400 300 0 11 5 (FloatRect 0 0 10 10)]) 2
       = Inr (stage [(FreeBall 400 (31089 / 100) 0 (1089 / 100) 5 (FloatRect 0 0 10 10))
                       \<lparr>collisionState := True\<rparr>])
   \<and> \<not> \<bar>vec_x (vel ((FreeBall 400 (31089 / 100) 0 (1089 / 100) 5 (FloatRect 0 0 10 10))
                       \<lparr>collisionState := True\<rparr>))\<bar>
         < \<bar>vec_x (vel (FreeBall 400 300 0 11 5 (FloatRect 0 0 10 10)))\<bar>"
  by (simp add: free_flight_move)
     (simp add: FreeBall_def slowDown_def shape_move_def setPosition_def Vector2f_def)

end
